theory Spec2Isabelle
  imports Complex_Main "HOL-Library.Word" "HOL-Library.Log_Nat" "HOL-Library.AList"
begin

unbundle bit_operations_syntax

section \<open>Python values and exceptions\<close>

text \<open>
  The parser is Python: a schema is the tree that \<^verbatim>\<open>json.load\<close> returns, a decoded value is
  what the \<^verbatim>\<open>construct\<close> library hands back. Both are values of one dynamic type.
  \<^item> \<open>VInt\<close> is Python's unbounded \<^verbatim>\<open>int\<close>, \<open>VBool\<close> its subclass \<^verbatim>\<open>bool\<close>.
  \<^item> \<open>VFloat\<close> is a finite \<^verbatim>\<open>float\<close>, given by the rational it denotes (infinities, NaN and
    the sign of zero are not represented).
  \<^item> \<open>VStr\<close> is \<^verbatim>\<open>str\<close>, \<open>VBytes\<close> is \<^verbatim>\<open>bytes\<close> or \<^verbatim>\<open>bytearray\<close>.
  \<^item> \<open>VList\<close> is \<^verbatim>\<open>list\<close> (and construct's \<^verbatim>\<open>ListContainer\<close>), \<open>VTuple\<close> is \<^verbatim>\<open>tuple\<close>.
  \<^item> \<open>VDict\<close> is a plain \<^verbatim>\<open>dict\<close>, \<open>VCont\<close> is \<^verbatim>\<open>construct.Container\<close>; both keep insertion
    order, so they are association lists; keys are strings, as JSON object keys and
    construct field names are.
  \<^item> \<open>VOther s\<close> is any other object, \<open>s\<close> being what \<^verbatim>\<open>str\<close> returns for it.
\<close>

type_synonym byte = "8 word"

datatype val =
    VNone
  | VBool bool
  | VInt int
  | VFloat rat
  | VStr string
  | VBytes "byte list"
  | VList "val list"
  | VTuple "val list"
  | VDict "(string \<times> val) list"
  | VCont "(string \<times> val) list"
  | VOther string

text \<open>
  Every exception the code or the library can raise is an error value. \<open>ValueError m v\<close> is
  \<^verbatim>\<open>ValueError(f"{m}{v}")\<close>: the fixed part of the message and the value formatted into it, if
  any. The remaining constructors are named after the Python or construct exception class.
  \<open>Diverges\<close> stands for a loop that never returns, \<open>OutsideModel\<close> marks the few places
  where Python goes on with a value that \<open>val\<close> cannot hold.
\<close>

datatype error =
    KeyError string
  | TypeError
  | AttributeError
  | ValueError string "val option"
  | ZeroDivisionError
  | OverflowError
  | StreamError
  | FormatFieldError
  | IntegerError
  | RangeError
  | PaddingError
  | StringError
  | UnicodeError
  | Diverges
  | OutsideModel string

type_synonym 'a result = "error + 'a"

definition bind :: "'a result \<Rightarrow> ('a \<Rightarrow> 'b result) \<Rightarrow> 'b result" where
  "bind m f = (case m of Inl e \<Rightarrow> Inl e | Inr x \<Rightarrow> f x)"

lemma bind_Inr [simp]: "bind (Inr x) f = f x"
  by (simp add: bind_def)

lemma bind_Inl [simp]: "bind (Inl e) f = Inl e"
  by (simp add: bind_def)

fun mapM :: "('a \<Rightarrow> 'b result) \<Rightarrow> 'a list \<Rightarrow> 'b list result" where
  "mapM f [] = Inr []"
| "mapM f (x # xs) = bind (f x) (\<lambda>y. bind (mapM f xs) (\<lambda>ys. Inr (y # ys)))"

subsection \<open>Numbers\<close>

text \<open>\<^verbatim>\<open>bool\<close> is a subclass of \<^verbatim>\<open>int\<close>: wherever an integer is expected, \<^verbatim>\<open>True\<close> is 1.\<close>

fun int_of :: "val \<Rightarrow> int option" where
  "int_of (VInt n) = Some n"
| "int_of (VBool b) = Some (if b then 1 else 0)"
| "int_of _ = None"

fun num_of :: "val \<Rightarrow> rat option" where
  "num_of (VInt n) = Some (of_int n)"
| "num_of (VBool b) = Some (if b then 1 else 0)"
| "num_of (VFloat q) = Some q"
| "num_of _ = None"

text \<open>
  A float operation returns the binary64 number nearest to the exact result, ties to the
  even mantissa: 53 significant bits, exponent of the last place at least \<open>-1074\<close>.
  \<open>binary64_quot n d\<close> rounds \<open>n / d\<close> for \<open>d > 0\<close>; \<open>None\<close> is a result too large for a
  float.
\<close>

definition round_half_even :: "int \<Rightarrow> int \<Rightarrow> int" where
  "round_half_even n d =
     (let q = n div d; r = n mod d in
      if 2 * r < d then q
      else if d < 2 * r then q + 1
      else if even q then q else q + 1)"

definition pow2 :: "int \<Rightarrow> rat" where
  "pow2 k = (if 0 \<le> k then 2 ^ nat k else 1 / 2 ^ nat (- k))"

definition binary64_quot :: "int \<Rightarrow> int \<Rightarrow> rat option" where
  "binary64_quot n d =
     (let a = \<bar>n\<bar>;
          e0 = bitlen a - bitlen d;
          e = (if (if 0 \<le> e0 then d * 2 ^ nat e0 \<le> a else d \<le> a * 2 ^ nat (- e0))
               then e0 else e0 - 1);
          qe = max e (- 1022) - 52;
          m = (if 0 \<le> qe then round_half_even a (d * 2 ^ nat qe)
               else round_half_even (a * 2 ^ nat (- qe)) d);
          r = of_int (sgn n * m) * pow2 qe
      in if n = 0 then Some 0 else if \<bar>r\<bar> < 2 ^ 1024 then Some r else None)"

definition binary64 :: "rat \<Rightarrow> rat option" where
  "binary64 q = (case quotient_of q of (n, d) \<Rightarrow> binary64_quot n d)"

text \<open>\<^verbatim>\<open>float(n)\<close> for an integer operand of a mixed operation.\<close>

definition to_float :: "val \<Rightarrow> rat result" where
  "to_float v =
     (case v of
        VFloat q \<Rightarrow> Inr q
      | _ \<Rightarrow> (case int_of v of
                None \<Rightarrow> Inl TypeError
              | Some n \<Rightarrow> (case binary64 (of_int n) of None \<Rightarrow> Inl OverflowError | Some q \<Rightarrow> Inr q)))"

text \<open>
  A binary arithmetic operator: integers when both operands are, floats when one is a float
  and the other a number, \<^verbatim>\<open>TypeError\<close> otherwise (the operators below are only applied
  where str, list and the other types do not overload them with a number).
\<close>

definition float_op :: "(rat \<Rightarrow> rat \<Rightarrow> rat) \<Rightarrow> val \<Rightarrow> val \<Rightarrow> val result" where
  "float_op f a b =
     bind (to_float a) (\<lambda>x. bind (to_float b) (\<lambda>y.
       case binary64 (f x y) of
         None \<Rightarrow> Inl (OutsideModel ''infinite float'')
       | Some r \<Rightarrow> Inr (VFloat r)))"

definition py_sub :: "val \<Rightarrow> val \<Rightarrow> val result" where
  "py_sub a b =
     (case (int_of a, int_of b) of
        (Some m, Some n) \<Rightarrow> Inr (VInt (m - n))
      | _ \<Rightarrow> if num_of a \<noteq> None \<and> num_of b \<noteq> None then float_op (-) a b else Inl TypeError)"

text \<open>\<^verbatim>\<open>a == n\<close> for an integer literal \<open>n\<close>: numbers compare by value, nothing else equals it.\<close>

definition py_eq_int :: "val \<Rightarrow> int \<Rightarrow> bool" where
  "py_eq_int a n = (num_of a = Some (of_int n))"

text \<open>\<^verbatim>\<open>a <= 0\<close>: defined between numbers only.\<close>

definition py_le_zero :: "val \<Rightarrow> bool result" where
  "py_le_zero a = (case num_of a of None \<Rightarrow> Inl TypeError | Some q \<Rightarrow> Inr (q \<le> 0))"

text \<open>
  Shifts and masks are defined on integers; a negative shift count is a \<^verbatim>\<open>ValueError\<close>.
  Python integers are unbounded and behave as two's complement, as HOL's do.
\<close>

definition negative_shift :: error where
  "negative_shift = ValueError ''negative shift count'' None"

definition py_rshift :: "val \<Rightarrow> val \<Rightarrow> val result" where
  "py_rshift a b =
     (case (int_of a, int_of b) of
        (Some m, Some n) \<Rightarrow> if n < 0 then Inl negative_shift else Inr (VInt (drop_bit (nat n) m))
      | _ \<Rightarrow> Inl TypeError)"

definition py_lshift :: "val \<Rightarrow> val \<Rightarrow> val result" where
  "py_lshift a b =
     (case (int_of a, int_of b) of
        (Some m, Some n) \<Rightarrow> if n < 0 then Inl negative_shift else Inr (VInt (push_bit (nat n) m))
      | _ \<Rightarrow> Inl TypeError)"

definition py_and :: "val \<Rightarrow> val \<Rightarrow> val result" where
  "py_and a b =
     (case (int_of a, int_of b) of
        (Some m, Some n) \<Rightarrow> Inr (VInt (m AND n))
      | _ \<Rightarrow> Inl TypeError)"

definition py_or :: "val \<Rightarrow> val \<Rightarrow> val result" where
  "py_or a b =
     (case (int_of a, int_of b) of
        (Some m, Some n) \<Rightarrow> Inr (VInt (m OR n))
      | _ \<Rightarrow> Inl TypeError)"

subsection \<open>Truth, containers\<close>

fun truthy :: "val \<Rightarrow> bool" where
  "truthy VNone = False"
| "truthy (VBool b) = b"
| "truthy (VInt n) = (n \<noteq> 0)"
| "truthy (VFloat q) = (q \<noteq> 0)"
| "truthy (VStr s) = (s \<noteq> [])"
| "truthy (VBytes bs) = (bs \<noteq> [])"
| "truthy (VList xs) = (xs \<noteq> [])"
| "truthy (VTuple xs) = (xs \<noteq> [])"
| "truthy (VDict d) = (d \<noteq> [])"
| "truthy (VCont d) = (d \<noteq> [])"
| "truthy (VOther s) = True"

text \<open>\<^verbatim>\<open>d[k] = v\<close> on an insertion-ordered dict is \<^const>\<open>AList.update\<close>; \<^verbatim>\<open>d[k]\<close> is \<^const>\<open>map_of\<close>.\<close>

definition lookup :: "(string \<times> val) list \<Rightarrow> string \<Rightarrow> val result" where
  "lookup d k = (case map_of d k of None \<Rightarrow> Inl (KeyError k) | Some v \<Rightarrow> Inr v)"

text \<open>
  \<^verbatim>\<open>operator.getitem(c, k)\<close> with a string key: a mapping is looked up, every other value
  either takes integer indices only or is not subscriptable at all.
\<close>

fun getitem :: "val \<Rightarrow> string \<Rightarrow> val result" where
  "getitem (VDict d) k = lookup d k"
| "getitem (VCont d) k = lookup d k"
| "getitem _ k = Inl TypeError"

text \<open>\<^verbatim>\<open>d.get(k, default)\<close>: only mappings have the method.\<close>

fun dict_get :: "val \<Rightarrow> string \<Rightarrow> val \<Rightarrow> val result" where
  "dict_get (VDict d) k dflt = Inr (case map_of d k of None \<Rightarrow> dflt | Some v \<Rightarrow> v)"
| "dict_get (VCont d) k dflt = Inr (case map_of d k of None \<Rightarrow> dflt | Some v \<Rightarrow> v)"
| "dict_get _ k dflt = Inl AttributeError"

fun is_infix :: "string \<Rightarrow> string \<Rightarrow> bool" where
  "is_infix k [] = (k = [])"
| "is_infix k (c # cs) = (take (length k) (c # cs) = k \<or> is_infix k cs)"

text \<open>\<^verbatim>\<open>k in c\<close> for a string \<open>k\<close>: key of a mapping, element of a sequence, substring of a string.\<close>

fun contains :: "val \<Rightarrow> string \<Rightarrow> bool result" where
  "contains (VDict d) k = Inr (k \<in> fst ` set d)"
| "contains (VCont d) k = Inr (k \<in> fst ` set d)"
| "contains (VList xs) k = Inr (VStr k \<in> set xs)"
| "contains (VTuple xs) k = Inr (VStr k \<in> set xs)"
| "contains (VStr s) k = Inr (is_infix k s)"
| "contains _ k = Inl TypeError"

text \<open>\<^verbatim>\<open>for x in c\<close>: the elements of a sequence, the keys of a mapping, the characters of a string.\<close>

fun iterate :: "val \<Rightarrow> val list result" where
  "iterate (VList xs) = Inr xs"
| "iterate (VTuple xs) = Inr xs"
| "iterate (VDict d) = Inr (map (VStr \<circ> fst) d)"
| "iterate (VCont d) = Inr (map (VStr \<circ> fst) d)"
| "iterate (VStr s) = Inr (map (\<lambda>c. VStr [c]) s)"
| "iterate (VBytes bs) = Inr (map (\<lambda>b. VInt (uint b)) bs)"
| "iterate _ = Inl TypeError"

section \<open>Byte streams and the integer fields of construct\<close>

text \<open>
  The input is the list of bytes not yet read. \<^verbatim>\<open>stream_read\<close> of construct returns exactly
  \<open>n\<close> bytes or raises \<^verbatim>\<open>StreamError\<close>.
\<close>

definition stream_read :: "int \<Rightarrow> byte list \<Rightarrow> (byte list \<times> byte list) result" where
  "stream_read n bs =
     (if n < 0 \<or> int (length bs) < n then Inl StreamError
      else Inr (take (nat n) bs, drop (nat n) bs))"

text \<open>\<^verbatim>\<open>int.from_bytes(data, "big")\<close> and \<^verbatim>\<open>int.from_bytes(data, "little")\<close>.\<close>

definition from_bytes_big :: "byte list \<Rightarrow> int" where
  "from_bytes_big bs = foldl (\<lambda>acc b. 256 * acc + uint b) 0 bs"

definition from_bytes_little :: "byte list \<Rightarrow> int" where
  "from_bytes_little bs = foldr (\<lambda>b acc. uint b + 256 * acc) bs 0"

text \<open>\<^verbatim>\<open>n.to_bytes(k, "little")\<close> for \<open>0 \<le> n < 256 ^ k\<close>, and its reverse for \<^verbatim>\<open>"big"\<close>.\<close>

fun to_bytes_little :: "nat \<Rightarrow> int \<Rightarrow> byte list" where
  "to_bytes_little 0 n = []"
| "to_bytes_little (Suc k) n = word_of_int n # to_bytes_little k (n div 256)"

definition to_bytes_big :: "nat \<Rightarrow> int \<Rightarrow> byte list" where
  "to_bytes_big k n = rev (to_bytes_little k n)"

text \<open>
  \<^verbatim>\<open>construct.Byte\<close>, the subconstruct of the \<^verbatim>\<open>char\<close> type: one unsigned byte. Building
  packs with \<^verbatim>\<open>struct.pack(">B", obj)\<close>, which takes an integer from 0 to 255.
\<close>

definition Byte_parse :: "byte list \<Rightarrow> (val \<times> byte list) result" where
  "Byte_parse bs = bind (stream_read 1 bs) (\<lambda>(d, rest). Inr (VInt (from_bytes_big d), rest))"

definition Byte_build :: "val \<Rightarrow> byte list result" where
  "Byte_build obj =
     (case int_of obj of
        None \<Rightarrow> Inl FormatFieldError
      | Some n \<Rightarrow> if 0 \<le> n \<and> n < 256 then Inr (to_bytes_big 1 n) else Inl FormatFieldError)"

text \<open>
  \<^verbatim>\<open>construct.BytesInteger(length, swapped=False, signed=False)\<close>: \<open>length\<close> bytes, most
  significant first (\<^verbatim>\<open>swapped=True\<close> would be least significant first). The length is
  whatever the schema gave: it must be a positive integer when the field is used.
\<close>

definition BytesInteger_length :: "val \<Rightarrow> int result" where
  "BytesInteger_length len =
     bind (py_le_zero len) (\<lambda>le. if le then Inl IntegerError
       else case int_of len of None \<Rightarrow> Inl StreamError | Some n \<Rightarrow> Inr n)"

definition BytesInteger_parse :: "val \<Rightarrow> byte list \<Rightarrow> (val \<times> byte list) result" where
  "BytesInteger_parse len bs =
     bind (BytesInteger_length len) (\<lambda>n.
     bind (stream_read n bs) (\<lambda>(d, rest). Inr (VInt (from_bytes_big d), rest)))"

definition BytesInteger_build :: "val \<Rightarrow> val \<Rightarrow> byte list result" where
  "BytesInteger_build len obj =
     (case int_of obj of
        None \<Rightarrow> Inl IntegerError
      | Some v \<Rightarrow>
          bind (BytesInteger_length len) (\<lambda>n.
            if 0 \<le> v \<and> v < 256 ^ nat n then Inr (to_bytes_big (nat n) v) else Inl IntegerError))"

section \<open>The adapters of \<^verbatim>\<open>schema_parser.py\<close>\<close>

subsection \<open>\<^verbatim>\<open>BoolBitAdapter\<close>\<close>

text \<open>
  \<^verbatim>\<open>_decode\<close> takes the integer (or the bytes, read little-endian) and returns bit
  \<open>bit_position\<close> as a bool; \<^verbatim>\<open>_encode\<close> shifts 1 or 0, by the truth value of the object,
  to that position. The schema compiler always leaves \<open>bit_position\<close> at its default 0.
\<close>

definition BoolBitAdapter_decode :: "nat \<Rightarrow> val \<Rightarrow> val result" where
  "BoolBitAdapter_decode bit_position obj =
     (case obj of
        VBytes bs \<Rightarrow> Inr (VBool (bit (from_bytes_little bs) bit_position))
      | _ \<Rightarrow> (case int_of obj of
                None \<Rightarrow> Inl TypeError
              | Some v \<Rightarrow> Inr (VBool (drop_bit bit_position v AND 1 \<noteq> 0))))"

definition BoolBitAdapter_encode :: "nat \<Rightarrow> val \<Rightarrow> val" where
  "BoolBitAdapter_encode bit_position obj =
     VInt (push_bit bit_position (if truthy obj then 1 else 0))"

text \<open>
  The \<^verbatim>\<open>char\<close> codec is \<^verbatim>\<open>BoolBitAdapter(construct.Byte)\<close>. An adapter parses with its
  subconstruct and decodes the result; it builds by encoding and building the result with
  the subconstruct.
\<close>

definition char_parse :: "byte list \<Rightarrow> (val \<times> byte list) result" where
  "char_parse bs =
     bind (Byte_parse bs) (\<lambda>(obj, rest).
     bind (BoolBitAdapter_decode 0 obj) (\<lambda>v. Inr (v, rest)))"

definition char_build :: "val \<Rightarrow> byte list result" where
  "char_build obj = Byte_build (BoolBitAdapter_encode 0 obj)"

subsection \<open>\<^verbatim>\<open>BitFieldAdapter\<close>\<close>

text \<open>
  \<^verbatim>\<open>build_bitfield_struct\<close> closes the adapter over \<open>size_bits\<close> and over \<open>bit_flags\<close>, the
  flags of the schema that have a \<^verbatim>\<open>"bit"\<close> entry, sorted by it. Both loops of the adapter run
  over \<^verbatim>\<open>enumerate(self.bit_flags)\<close> and take \<open>end\<close> from the next flag, or from \<open>size_bits\<close>
  for the last one: \<open>enumerate_flags\<close> pairs every flag with that \<open>end\<close>.
\<close>

definition enumerate_flags :: "val \<Rightarrow> val list \<Rightarrow> (val \<times> val result) list" where
  "enumerate_flags size_bits bit_flags =
     zip bit_flags (map (\<lambda>g. getitem g ''bit'') (tl bit_flags) @ [Inr size_bits])"

text \<open>
  A key of the result dict. Lists and dicts are unhashable; any other value is a legal key
  in Python, but only strings are keys of \<open>val\<close>.
\<close>

fun key_of :: "val \<Rightarrow> string result" where
  "key_of (VStr s) = Inr s"
| "key_of (VList xs) = Inl TypeError"
| "key_of (VDict d) = Inl TypeError"
| "key_of (VCont d) = Inl TypeError"
| "key_of _ = Inl (OutsideModel ''key that is not a string'')"

text \<open>
  \<^verbatim>\<open>int.from_bytes(obj, "little") if isinstance(obj, bytes) else int(obj)\<close> is \<open>int_arg\<close>. The
  subconstruct hands over an integer.
\<close>

definition trunc :: "rat \<Rightarrow> int" where
  "trunc q = (if 0 \<le> q then \<lfloor>q\<rfloor> else \<lceil>q\<rceil>)"

text \<open>\<^verbatim>\<open>int(x)\<close>: a float is truncated toward zero; a string or bytes would be parsed.\<close>

fun py_int :: "val \<Rightarrow> int result" where
  "py_int (VInt n) = Inr n"
| "py_int (VBool b) = Inr (if b then 1 else 0)"
| "py_int (VFloat q) = Inr (trunc q)"
| "py_int (VStr s) = Inl (OutsideModel ''int of a string'')"
| "py_int (VBytes bs) = Inl (OutsideModel ''int of a string'')"
| "py_int _ = Inl TypeError"

definition int_arg :: "val \<Rightarrow> int result" where
  "int_arg obj = (case obj of VBytes bs \<Rightarrow> Inr (from_bytes_little bs) | _ \<Rightarrow> py_int obj)"

lemma int_arg_VInt [simp]: "int_arg (VInt n) = Inr n"
  by (simp add: int_arg_def)

text \<open>One round of the loop of \<^verbatim>\<open>_decode\<close>: the key and the value stored in \<open>result\<close>.\<close>

definition decode_flag :: "int \<Rightarrow> val \<Rightarrow> val result \<Rightarrow> (string \<times> val) result" where
  "decode_flag value f end =
     bind (getitem f ''name'') (\<lambda>name.
     bind (getitem f ''bit'') (\<lambda>start.
     bind end (\<lambda>e.
     bind (py_sub e start) (\<lambda>width.
     bind (if py_eq_int width 1
           then bind (py_rshift (VInt value) start) (\<lambda>s.
                bind (py_and s (VInt 1)) (\<lambda>a. Inr (VBool (truthy a))))
           else bind (py_lshift (VInt 1) width) (\<lambda>m.
                bind (py_sub m (VInt 1)) (\<lambda>mask.
                bind (py_rshift (VInt value) start) (\<lambda>s. py_and s mask)))) (\<lambda>v.
     bind (key_of name) (\<lambda>k. Inr (k, v)))))))"

fun decode_flags :: "int \<Rightarrow> (val \<times> val result) list \<Rightarrow> (string \<times> val) list
    \<Rightarrow> (string \<times> val) list result" where
  "decode_flags value [] result = Inr result"
| "decode_flags value ((f, end) # fs) result =
     bind (decode_flag value f end) (\<lambda>(k, v). decode_flags value fs (AList.update k v result))"

definition BitFieldAdapter_decode :: "val \<Rightarrow> val list \<Rightarrow> val \<Rightarrow> val result" where
  "BitFieldAdapter_decode size_bits bit_flags obj =
     bind (int_arg obj) (\<lambda>value.
     bind (decode_flags value (enumerate_flags size_bits bit_flags) []) (\<lambda>result.
     Inr (VDict result)))"

text \<open>
  One round of the loop of \<^verbatim>\<open>_encode\<close>, for a flag whose name is in \<open>obj\<close>: the new
  \<open>value\<close>.
\<close>

definition encode_flag :: "val \<Rightarrow> string \<Rightarrow> val \<Rightarrow> val result \<Rightarrow> int \<Rightarrow> int result" where
  "encode_flag obj name f end value =
     bind (getitem f ''bit'') (\<lambda>start.
     bind end (\<lambda>e.
     bind (py_sub e start) (\<lambda>width.
     bind (if py_eq_int width 1
           then bind (getitem obj name) (\<lambda>x.
                if truthy x
                then bind (py_lshift (VInt 1) start) (\<lambda>b. py_or (VInt value) b)
                else Inr (VInt value))
           else bind (py_lshift (VInt 1) width) (\<lambda>m.
                bind (py_sub m (VInt 1)) (\<lambda>mask.
                bind (getitem obj name) (\<lambda>x.
                bind (py_and x mask) (\<lambda>y.
                bind (py_lshift y start) (\<lambda>z. py_or (VInt value) z)))))) py_int)))"

fun encode_flags :: "val \<Rightarrow> (val \<times> val result) list \<Rightarrow> int \<Rightarrow> int result" where
  "encode_flags obj [] value = Inr value"
| "encode_flags obj ((f, end) # fs) value =
     bind (getitem f ''name'') (\<lambda>n.
     bind (key_of n) (\<lambda>name.
     bind (contains obj name) (\<lambda>present.
       if \<not> present then encode_flags obj fs value
       else bind (encode_flag obj name f end value) (encode_flags obj fs))))"

definition BitFieldAdapter_encode :: "val \<Rightarrow> val list \<Rightarrow> val \<Rightarrow> val result" where
  "BitFieldAdapter_encode size_bits bit_flags obj =
     bind (encode_flags obj (enumerate_flags size_bits bit_flags) 0) (\<lambda>value. Inr (VInt value))"

text \<open>
  The bitfield codec is \<^verbatim>\<open>BitFieldAdapter(BytesInteger(size_bytes, swapped=False,
  signed=False), flags)\<close>.
\<close>

definition bitfield_parse :: "val \<Rightarrow> val \<Rightarrow> val list \<Rightarrow> byte list \<Rightarrow> (val \<times> byte list) result" where
  "bitfield_parse size_bytes size_bits bit_flags bs =
     bind (BytesInteger_parse size_bytes bs) (\<lambda>(obj, rest).
     bind (BitFieldAdapter_decode size_bits bit_flags obj) (\<lambda>v. Inr (v, rest)))"

definition bitfield_build :: "val \<Rightarrow> val \<Rightarrow> val list \<Rightarrow> val \<Rightarrow> byte list result" where
  "bitfield_build size_bytes size_bits bit_flags obj =
     bind (BitFieldAdapter_encode size_bits bit_flags obj) (BytesInteger_build size_bytes)"

section \<open>The codec tree\<close>

text \<open>
  \<^verbatim>\<open>TYPE_MAPPING\<close> names the fixed-width fields of construct. \<^verbatim>\<open>Byte\<close> is the entry of
  \<^verbatim>\<open>"char"\<close>; the others are little-endian integers and floats.
\<close>

datatype field =
    Byte
  | Int8ul | Int16ul | Int32ul | Int64ul
  | Int8sl | Int16sl | Int32sl | Int64sl
  | Float32l | Float64l

definition TYPE_MAPPING :: "(string \<times> field) list" where
  "TYPE_MAPPING =
     [(''char'', Byte),
      (''Int8ul'', Int8ul), (''Int16ul'', Int16ul), (''Int32ul'', Int32ul), (''Int64ul'', Int64ul),
      (''Int8sl'', Int8sl), (''Int16sl'', Int16sl), (''Int32sl'', Int32sl), (''Int64sl'', Int64sl),
      (''Float32l'', Float32l), (''Float64l'', Float64l),
      (''int8'', Int8sl), (''uint8'', Int8ul), (''int16'', Int16sl), (''uint16'', Int16ul),
      (''int32'', Int32sl), (''uint32'', Int32ul)]"

text \<open>
  What \<^verbatim>\<open>build_struct_from_schema\<close> returns: a construct object. The count of an
  \<^verbatim>\<open>Array\<close> is an integer (a JSON \<^verbatim>\<open>true\<close> counts as 1, being an \<^verbatim>\<open>int\<close>) or the resolver
  of a dotted path. \<open>Bytes\<close>, \<open>PaddedString\<close> and \<open>BitField\<close> keep the numbers of the
  schema as they are: construct does not look at them before the codec is used.
\<close>

datatype count = Count int | This string

datatype codec =
    Struct "(string \<times> codec) list"
  | Array count codec
  | GreedyRange codec
  | BoolBit field
  | Bytes val
  | PaddedString val string
  | BitField val val "val list"
  | Field field
  | Scale field val

section \<open>The schema compiler\<close>

subsection \<open>\<^verbatim>\<open>build_bitfield_struct\<close>\<close>

text \<open>
  \<^verbatim>\<open>(size_bits + 7) // 8\<close>: floor division, on integers or on floats (dividing a float by 8
  is exact, and so is the floor).
\<close>

definition size_bytes_of :: "val \<Rightarrow> val result" where
  "size_bytes_of size_bits =
     (case int_of size_bits of
        Some n \<Rightarrow> Inr (VInt ((n + 7) div 8))
      | None \<Rightarrow>
          (case size_bits of
             VFloat q \<Rightarrow> bind (float_op (+) size_bits (VInt 7))
                          (\<lambda>s. case s of VFloat x \<Rightarrow> Inr (VFloat (of_int \<lfloor>x / 8\<rfloor>)) | _ \<Rightarrow> Inl TypeError)
           | _ \<Rightarrow> Inl TypeError))"

fun filterM :: "('a \<Rightarrow> bool result) \<Rightarrow> 'a list \<Rightarrow> 'a list result" where
  "filterM p [] = Inr []"
| "filterM p (x # xs) =
     bind (p x) (\<lambda>b. bind (filterM p xs) (\<lambda>ys. Inr (if b then x # ys else ys)))"

text \<open>
  \<^verbatim>\<open>sorted(fs, key=lambda f: f["bit"])\<close>: the keys are computed first, then compared. The
  sort is stable. Numbers compare by value; with two or more flags, keys that are not all
  numbers are a \<^verbatim>\<open>TypeError\<close>, except that strings compare with strings and lists with lists,
  which is not modelled.
\<close>

definition bit_key :: "val \<Rightarrow> rat" where
  "bit_key f = (case getitem f ''bit'' of
                  Inr k \<Rightarrow> (case num_of k of Some q \<Rightarrow> q | None \<Rightarrow> 0)
                | Inl e \<Rightarrow> 0)"

fun sortable_class :: "val \<Rightarrow> nat" where
  "sortable_class (VStr s) = 1"
| "sortable_class (VList xs) = 2"
| "sortable_class _ = 0"

definition sorted_by_bit :: "val list \<Rightarrow> val list result" where
  "sorted_by_bit fs =
     bind (mapM (\<lambda>f. getitem f ''bit'') fs) (\<lambda>keys.
       if length fs \<le> 1 then Inr fs
       else if list_all (\<lambda>k. num_of k \<noteq> None) keys then Inr (sort_key bit_key fs)
       else if list_all (\<lambda>k. sortable_class k = 1) keys \<or> list_all (\<lambda>k. sortable_class k = 2) keys
         then Inl (OutsideModel ''sort keys that are not numbers'')
       else Inl TypeError)"

definition build_bitfield_struct :: "val \<Rightarrow> codec result" where
  "build_bitfield_struct schema =
     bind (dict_get schema ''size'' (VInt 16)) (\<lambda>size_bits.
     bind (size_bytes_of size_bits) (\<lambda>size_bytes.
     bind (dict_get schema ''flags'' (VList [])) (\<lambda>flags.
     bind (iterate flags) (\<lambda>fs.
     bind (filterM (\<lambda>f. contains f ''bit'') fs) (\<lambda>with_bit.
     bind (sorted_by_bit with_bit) (\<lambda>bit_flags.
     Inr (BitField size_bytes size_bits bit_flags)))))))"

subsection \<open>\<^verbatim>\<open>build_struct_from_schema\<close>\<close>

text \<open>
  \<^verbatim>\<open>PaddedString(length, encoding)\<close> looks the encoding up at once (\<^verbatim>\<open>encodingunit\<close>): the
  name with \<^verbatim>\<open>-\<close> replaced by \<^verbatim>\<open>_\<close>, in lower case, must be one of the ten that construct
  knows; the length is only stored.
\<close>

definition lower_char :: "char \<Rightarrow> char" where
  "lower_char c =
     (let n = of_char c :: nat in if 65 \<le> n \<and> n \<le> 90 then char_of (n + 32) else c)"

definition possiblestringencodings :: "(string \<times> nat) list" where
  "possiblestringencodings =
     [(''ascii'', 1), (''utf8'', 1), (''utf_8'', 1), (''u8'', 1),
      (''utf16'', 2), (''utf_16'', 2), (''u16'', 2),
      (''utf32'', 4), (''utf_32'', 4), (''u32'', 4)]"

definition encodingunit :: "val \<Rightarrow> nat result" where
  "encodingunit encoding =
     (case encoding of
        VStr s \<Rightarrow>
          (case map_of possiblestringencodings
                  (map (\<lambda>c. lower_char (if c = CHR ''-'' then CHR ''_'' else c)) s) of
             None \<Rightarrow> Inl StringError
           | Some u \<Rightarrow> Inr u)
      | _ \<Rightarrow> Inl AttributeError)"

definition make_PaddedString :: "val \<Rightarrow> val \<Rightarrow> codec result" where
  "make_PaddedString len encoding =
     bind (encodingunit encoding) (\<lambda>u.
       case encoding of VStr s \<Rightarrow> Inr (PaddedString len s) | _ \<Rightarrow> Inl AttributeError)"

text \<open>
  \<^verbatim>\<open>fields[name] = ...\<close> and then \<^verbatim>\<open>construct.Struct(**fields)\<close>: an unhashable name fails
  at the assignment; a name that is not a string is stored and fails at the call, after the
  loop, as does the name \<^verbatim>\<open>self\<close>, which collides with the first parameter of
  \<^verbatim>\<open>Struct.__init__\<close>. \<open>store_field\<close> returns the dict and whether the call can still
  succeed.
\<close>

fun store_field :: "val \<Rightarrow> codec \<Rightarrow> (string \<times> codec) list \<times> bool
    \<Rightarrow> ((string \<times> codec) list \<times> bool) result" where
  "store_field (VStr s) c (fields, ok) = Inr (AList.update s c fields, ok \<and> s \<noteq> ''self'')"
| "store_field (VList xs) c (fields, ok) = Inl TypeError"
| "store_field (VDict d) c (fields, ok) = Inl TypeError"
| "store_field (VCont d) c (fields, ok) = Inl TypeError"
| "store_field _ c (fields, ok) = Inr (fields, False)"

definition count_error :: "val \<Rightarrow> error" where
  "count_error count_expr = ValueError ''Unsupported count type: '' (Some count_expr)"

definition unknown_type :: "val \<Rightarrow> error" where
  "unknown_type schema_type = ValueError ''Unknown type in schema: '' (Some schema_type)"

text \<open>\<^verbatim>\<open>schema_type in self.TYPE_MAPPING\<close>: hashing a list or a dict fails.\<close>

fun type_lookup :: "val \<Rightarrow> field option result" where
  "type_lookup (VStr s) = Inr (map_of TYPE_MAPPING s)"
| "type_lookup (VList xs) = Inl TypeError"
| "type_lookup (VDict d) = Inl TypeError"
| "type_lookup (VCont d) = Inl TypeError"
| "type_lookup _ = Inr None"

text \<open>The compiler recurses into values stored inside the schema, which are smaller.\<close>

lemma size_map_of:
  "map_of d k = Some v \<Longrightarrow> size v < Suc (size_list (size_prod (\<lambda>_. 0) size) d)"
  by (induction d) (auto split: if_splits)

lemma size_getitem: "getitem schema k = Inr v \<Longrightarrow> size v < size schema"
  by (cases schema) (auto simp: lookup_def split: option.splits dest: size_map_of)

lemma size_dict_get: "dict_get schema k d = Inr v \<Longrightarrow> v = d \<or> size v < size schema"
  by (cases schema) (auto split: option.splits dest: size_map_of)

lemma sum_size_le: "sum_list (map size (xs :: val list)) \<le> size_list size xs"
  by (induction xs) auto

lemma size_iterate: "iterate fs = Inr items \<Longrightarrow> sum_list (map size items) \<le> size fs"
  using sum_size_le by (cases fs) (auto simp: comp_def le_SucI)

lemma dict_get_pos: "dict_get schema k d = Inr v \<Longrightarrow> 0 < size schema"
  by (cases schema) auto

lemma bind_cong [fundef_cong]:
  "m = m' \<Longrightarrow> (\<And>x. m' = Inr x \<Longrightarrow> f x = f' x) \<Longrightarrow> bind m f = bind m' f'"
  by (cases m') (simp_all add: bind_def)

function (sequential)
  build_struct_from_schema :: "val \<Rightarrow> codec result" and
  struct_fields :: "val list \<Rightarrow> (string \<times> codec) list \<times> bool \<Rightarrow> codec result"
where
  "build_struct_from_schema schema =
     bind (dict_get schema ''type'' (VStr ''struct'')) (\<lambda>schema_type.
       if schema_type = VStr ''struct'' then
         bind (dict_get schema ''fields'' (VList [])) (\<lambda>fs.
         bind (iterate fs) (\<lambda>items. struct_fields items ([], True)))
       else if schema_type = VStr ''array'' then
         bind (getitem schema ''elements'') (\<lambda>elements.
         bind (build_struct_from_schema elements) (\<lambda>element_struct.
         bind (contains schema ''count'') (\<lambda>has_count.
           if has_count then
             bind (getitem schema ''count'') (\<lambda>count_expr.
               case count_expr of
                 VInt n \<Rightarrow> Inr (Array (Count n) element_struct)
               | VBool b \<Rightarrow> Inr (Array (Count (if b then 1 else 0)) element_struct)
               | VStr path \<Rightarrow> Inr (Array (This path) element_struct)
               | _ \<Rightarrow> Inl (count_error count_expr))
           else
             bind (dict_get schema ''until_eof'' (VBool False)) (\<lambda>until_eof.
               if truthy until_eof then Inr (GreedyRange element_struct)
               else Inl (ValueError (''Array must have 'count' or 'until_eof'' @ [CHR 0x27]) None)))))
       else if schema_type = VStr ''char'' then Inr (BoolBit Byte)
       else if schema_type = VStr ''bytes'' then
         bind (dict_get schema ''size'' (VInt 0)) (\<lambda>size.
         bind (py_le_zero size) (\<lambda>le.
           if le then Inl (ValueError (''Bytes must have a positive 'size'' @ [CHR 0x27]) None)
           else Inr (Bytes size)))
       else if schema_type = VStr ''string'' then
         bind (dict_get schema ''length'' VNone) (\<lambda>length.
           if length = VNone then Inl (ValueError (''String must have 'length'' @ [CHR 0x27]) None)
           else bind (dict_get schema ''encoding'' (VStr ''ascii'')) (make_PaddedString length))
       else if schema_type = VStr ''bitfield'' then build_bitfield_struct schema
       else
         bind (type_lookup schema_type) (\<lambda>found.
           case found of
             Some base_type \<Rightarrow>
               bind (dict_get schema ''scale'' VNone) (\<lambda>scale.
                 if scale \<noteq> VNone then Inr (Scale base_type scale) else Inr (Field base_type))
           | None \<Rightarrow> Inl (unknown_type schema_type)))"
| "struct_fields [] (fields, ok) = (if ok then Inr (Struct fields) else Inl TypeError)"
| "struct_fields (field # rest) (fields, ok) =
     bind (getitem field ''name'') (\<lambda>name.
     bind (build_struct_from_schema field) (\<lambda>c.
     bind (store_field name c (fields, ok)) (struct_fields rest)))"
  by pat_completeness auto

termination build_struct_from_schema
proof (relation "inv_image (less_than <*lex*> less_than)
    (\<lambda>x. case x of Inl schema \<Rightarrow> (size schema, 0)
                  | Inr (items, acc) \<Rightarrow> (sum_list (map size items), Suc (length items)))", goal_cases)
  case 1
  show ?case by auto
next
  case (2 schema schema_type fs items)
  from 2(3) have "fs = VList [] \<or> size fs < size schema" by (rule size_dict_get)
  moreover have "0 < size schema" using 2(1) by (rule dict_get_pos)
  moreover have "sum_list (map size items) \<le> size fs" using 2(4) by (rule size_iterate)
  moreover have "fs = VList [] \<Longrightarrow> items = []" using 2(4) by simp
  ultimately show ?case by auto
next
  case 3
  then show ?case by (simp add: size_getitem)
next
  case (4 field rest)
  have "sum_list (map size rest) = 0 \<or> 0 < sum_list (map size rest)" by arith
  then show ?case by auto
next
  case 5
  then show ?case by auto
qed

declare build_struct_from_schema.simps [simp del]

subsection \<open>\<^verbatim>\<open>SchemaParser.__init__\<close> and \<^verbatim>\<open>load_parsers_from_schemas\<close>\<close>

text \<open>
  A schema file is its name and what \<^verbatim>\<open>load_schema\<close> does with it: the JSON value, or the
  exception of \<^verbatim>\<open>open\<close> or \<^verbatim>\<open>json.load\<close>. The constructor compiles the
  \<^verbatim>\<open>"structure"\<close> entry.
\<close>

record parser =
  p_schema_file :: string
  p_schema :: val
  p_struct :: codec

definition SchemaParser :: "string \<times> val result \<Rightarrow> parser result" where
  "SchemaParser file =
     bind (snd file) (\<lambda>js.
     bind (getitem js ''structure'') (\<lambda>structure.
     bind (build_struct_from_schema structure) (\<lambda>c.
     Inr \<lparr>p_schema_file = fst file, p_schema = js, p_struct = c\<rparr>)))"

text \<open>
  The directory is what the loader sees of the file system: nothing at that path, something
  that is not a directory, or a directory with its \<^verbatim>\<open>*.json\<close> files in the order in which
  \<^verbatim>\<open>glob\<close> yields them. The loop keeps the parsers that could be constructed and goes on
  after any exception. (A schema that leaves the model makes the result unknown.)
\<close>

datatype directory = Missing | NotADirectory | Directory "(string \<times> val result) list"

fun load_loop :: "(string \<times> val result) list \<Rightarrow> parser list \<Rightarrow> parser list result" where
  "load_loop [] parsers = Inr parsers"
| "load_loop (file # files) parsers =
     (case SchemaParser file of
        Inr p \<Rightarrow> load_loop files (parsers @ [p])
      | Inl (OutsideModel m) \<Rightarrow> Inl (OutsideModel m)
      | Inl e \<Rightarrow> load_loop files parsers)"

fun load_parsers_from_schemas :: "string \<Rightarrow> directory \<Rightarrow> parser list result" where
  "load_parsers_from_schemas schema_dir Missing =
     Inl (ValueError ''Schema directory does not exist: '' (Some (VOther schema_dir)))"
| "load_parsers_from_schemas schema_dir NotADirectory =
     Inl (ValueError ''Schema path is not a directory: '' (Some (VOther schema_dir)))"
| "load_parsers_from_schemas schema_dir (Directory files) = load_loop files []"

text \<open>
  The text of an exception: the message with the value formatted into it. \<^verbatim>\<open>str\<close> of a
  string is the string; of an object, what the object says.
\<close>

fun message :: "error \<Rightarrow> string option" where
  "message (ValueError m None) = Some m"
| "message (ValueError m (Some (VStr s))) = Some (m @ s)"
| "message (ValueError m (Some (VOther s))) = Some (m @ s)"
| "message _ = None"

section \<open>The scale adapter\<close>

text \<open>
  \<^verbatim>\<open>a / b\<close>, true division. Between integers the quotient is rounded once, whatever their
  size; with a float, the integer operand is converted first. \<^verbatim>\<open>a * b\<close>: a product of
  numbers, or a sequence repeated.
\<close>

definition py_truediv :: "val \<Rightarrow> val \<Rightarrow> val result" where
  "py_truediv a b =
     (case (int_of a, int_of b) of
        (Some m, Some n) \<Rightarrow>
          if n = 0 then Inl ZeroDivisionError
          else (case binary64 (of_int m / of_int n) of
                  None \<Rightarrow> Inl OverflowError
                | Some q \<Rightarrow> Inr (VFloat q))
      | _ \<Rightarrow>
          if num_of a \<noteq> None \<and> num_of b \<noteq> None then
            bind (to_float a) (\<lambda>x. bind (to_float b) (\<lambda>y.
              if y = 0 then Inl ZeroDivisionError
              else case binary64 (x / y) of
                     None \<Rightarrow> Inl (OutsideModel ''infinite float'')
                   | Some r \<Rightarrow> Inr (VFloat r)))
          else Inl TypeError)"

fun repeated :: "val \<Rightarrow> int \<Rightarrow> val result" where
  "repeated (VStr s) n = Inr (VStr (concat (replicate (nat n) s)))"
| "repeated (VBytes bs) n = Inr (VBytes (concat (replicate (nat n) bs)))"
| "repeated (VList xs) n = Inr (VList (concat (replicate (nat n) xs)))"
| "repeated (VTuple xs) n = Inr (VTuple (concat (replicate (nat n) xs)))"
| "repeated _ n = Inl TypeError"

definition py_mul :: "val \<Rightarrow> val \<Rightarrow> val result" where
  "py_mul a b =
     (case (int_of a, int_of b) of
        (Some m, Some n) \<Rightarrow> Inr (VInt (m * n))
      | (None, Some n) \<Rightarrow> if num_of a \<noteq> None then float_op (*) a b else repeated a n
      | (Some m, None) \<Rightarrow> if num_of b \<noteq> None then float_op (*) a b else repeated b m
      | (None, None) \<Rightarrow> if num_of a \<noteq> None \<and> num_of b \<noteq> None then float_op (*) a b
                        else Inl TypeError)"

text \<open>\<^verbatim>\<open>ScaleAdapter\<close>: \<^verbatim>\<open>obj / self.scale\<close> and \<^verbatim>\<open>int(obj * self.scale)\<close>.\<close>

definition ScaleAdapter_decode :: "val \<Rightarrow> val \<Rightarrow> val result" where
  "ScaleAdapter_decode scale obj = py_truediv obj scale"

definition ScaleAdapter_encode :: "val \<Rightarrow> val \<Rightarrow> val result" where
  "ScaleAdapter_encode scale obj =
     bind (py_mul obj scale) (\<lambda>p. bind (py_int p) (\<lambda>n. Inr (VInt n)))"

section \<open>Parsing and building\<close>

subsection \<open>Fixed-width fields\<close>

fun field_size :: "field \<Rightarrow> nat" where
  "field_size Byte = 1"
| "field_size Int8ul = 1" | "field_size Int16ul = 2" | "field_size Int32ul = 4" | "field_size Int64ul = 8"
| "field_size Int8sl = 1" | "field_size Int16sl = 2" | "field_size Int32sl = 4" | "field_size Int64sl = 8"
| "field_size Float32l = 4" | "field_size Float64l = 8"

definition is_signed :: "field \<Rightarrow> bool" where
  "is_signed f = (f \<in> {Int8sl, Int16sl, Int32sl, Int64sl})"

definition is_float :: "field \<Rightarrow> bool" where
  "is_float f = (f \<in> {Float32l, Float64l})"

text \<open>
  A \<^verbatim>\<open>FormatField\<close> reads its bytes and unpacks them with \<^verbatim>\<open>struct\<close>: an unsigned or a two's
  complement integer, least significant byte first. It packs an integer of its range.
  The values of the two float fields are not modelled.
\<close>

definition field_parse :: "field \<Rightarrow> byte list \<Rightarrow> (val \<times> byte list) result" where
  "field_parse f bs =
     (if f = Byte then Byte_parse bs
      else bind (stream_read (int (field_size f)) bs) (\<lambda>(d, rest).
        if is_float f then Inl (OutsideModel ''float field'')
        else let u = from_bytes_little d in
          Inr (VInt (if is_signed f \<and> 2 ^ (8 * field_size f - 1) \<le> u
                     then u - 2 ^ (8 * field_size f) else u), rest)))"

definition field_build :: "field \<Rightarrow> val \<Rightarrow> byte list result" where
  "field_build f obj =
     (if f = Byte then Byte_build obj
      else if is_float f then Inl (OutsideModel ''float field'')
      else case int_of obj of
        None \<Rightarrow> Inl FormatFieldError
      | Some v \<Rightarrow>
          if (if is_signed f
              then - (2 ^ (8 * field_size f - 1)) \<le> v \<and> v < 2 ^ (8 * field_size f - 1)
              else 0 \<le> v \<and> v < 2 ^ (8 * field_size f))
          then Inr (to_bytes_little (field_size f) v)
          else Inl FormatFieldError)"

subsection \<open>\<^verbatim>\<open>Bytes\<close> and \<^verbatim>\<open>PaddedString\<close>\<close>

text \<open>
  \<^verbatim>\<open>Bytes(size)\<close> reads \<open>size\<close> bytes. It builds bytes of that length, or an integer as
  \<open>size\<close> bytes, most significant first.
\<close>

definition Bytes_parse :: "val \<Rightarrow> byte list \<Rightarrow> (val \<times> byte list) result" where
  "Bytes_parse sz bs =
     bind (py_le_zero sz) (\<lambda>le.
       case int_of sz of
         None \<Rightarrow> Inl StreamError
       | Some n \<Rightarrow> bind (stream_read n bs) (\<lambda>(d, rest). Inr (VBytes d, rest)))"

definition Bytes_build :: "val \<Rightarrow> val \<Rightarrow> (val \<times> byte list) result" where
  "Bytes_build sz obj =
     bind (case int_of obj of
             Some v \<Rightarrow>
               (case int_of sz of
                  None \<Rightarrow> Inl TypeError
                | Some n \<Rightarrow> if 0 \<le> v \<and> v < 256 ^ nat n then Inr (VBytes (to_bytes_big (nat n) v))
                            else Inl IntegerError)
           | None \<Rightarrow> Inr obj) (\<lambda>data.
       case data of
         VBytes d \<Rightarrow> if num_of sz = Some (of_nat (length d)) then Inr (data, d) else Inl StreamError
       | _ \<Rightarrow> Inl StringError)"

text \<open>
  \<^verbatim>\<open>PaddedString(length, encoding)\<close> reads \<open>length\<close> bytes, strips the trailing zero bytes and
  decodes the rest; it builds by encoding the string and padding it with zero bytes, and
  fails when the text is longer. Only ASCII text is modelled.
\<close>

definition is_ascii :: "string \<Rightarrow> bool" where
  "is_ascii encoding =
     (map (\<lambda>c. lower_char (if c = CHR ''-'' then CHR ''_'' else c)) encoding = ''ascii'')"

definition rstrip_zeros :: "byte list \<Rightarrow> byte list" where
  "rstrip_zeros bs = rev (dropWhile (\<lambda>b. b = 0) (rev bs))"

text \<open>\<^verbatim>\<open>length < 0\<close> in \<^verbatim>\<open>FixedSized\<close>.\<close>

definition padded_length :: "val \<Rightarrow> val result" where
  "padded_length len =
     (case num_of len of
        None \<Rightarrow> Inl TypeError
      | Some q \<Rightarrow> if q < 0 then Inl PaddingError else Inr len)"

definition PaddedString_parse :: "val \<Rightarrow> string \<Rightarrow> byte list \<Rightarrow> (val \<times> byte list) result" where
  "PaddedString_parse len encoding bs =
     bind (padded_length len) (\<lambda>l.
       case int_of l of
         None \<Rightarrow> Inl StreamError
       | Some n \<Rightarrow>
           bind (stream_read n bs) (\<lambda>(d, rest).
             if \<not> is_ascii encoding then Inl (OutsideModel ''text encoding'')
             else if list_all (\<lambda>b. b < 128) (rstrip_zeros d)
               then Inr (VStr (map (\<lambda>b. char_of (unat b)) (rstrip_zeros d)), rest)
               else Inl UnicodeError))"

definition PaddedString_build :: "val \<Rightarrow> string \<Rightarrow> val \<Rightarrow> (val \<times> byte list) result" where
  "PaddedString_build len encoding obj =
     (case obj of
        VStr s \<Rightarrow>
          if \<not> is_ascii encoding then Inl (OutsideModel ''text encoding'')
          else if \<not> list_all (\<lambda>c. (of_char c :: nat) < 128) s then Inl UnicodeError
          else bind (padded_length len) (\<lambda>l.
            case int_of l of
              None \<Rightarrow> (case num_of l of
                         Some q \<Rightarrow> if q < of_nat (length s) then Inl PaddingError else Inl TypeError
                       | None \<Rightarrow> Inl TypeError)
            | Some n \<Rightarrow>
                if n < int (length s) then Inl PaddingError
                else Inr (obj, map (\<lambda>c. of_char c) s @ replicate (nat n - length s) 0))
      | _ \<Rightarrow> Inl StringError)"

subsection \<open>Counts\<close>

text \<open>
  \<^verbatim>\<open>_resolve_this_path\<close>: the path is split at the dots and the parts are looked up one
  after the other, starting from the context, \<^verbatim>\<open>reduce(operator.getitem, parts, ctx)\<close>.
\<close>

fun split_dot :: "string \<Rightarrow> string list" where
  "split_dot [] = [[]]"
| "split_dot (c # cs) =
     (if c = CHR ''.'' then [] # split_dot cs
      else (case split_dot cs of p # ps \<Rightarrow> (c # p) # ps | [] \<Rightarrow> [[c]]))"

fun reduce_getitem :: "val \<Rightarrow> string list \<Rightarrow> val result" where
  "reduce_getitem v [] = Inr v"
| "reduce_getitem v (part # parts) = bind (getitem v part) (\<lambda>w. reduce_getitem w parts)"

type_synonym container = "(string \<times> val) list"

definition resolve_this_path :: "string \<Rightarrow> container \<Rightarrow> val result" where
  "resolve_this_path path ctx = reduce_getitem (VCont ctx) (split_dot path)"

text \<open>
  \<^verbatim>\<open>evaluate(self.count, context)\<close>, then \<^verbatim>\<open>if not 0 <= count: raise RangeError\<close>. Parsing
  goes on with \<^verbatim>\<open>range(count)\<close>, which takes an integer; building compares the count with
  \<^verbatim>\<open>len(obj)\<close>.
\<close>

fun evaluate :: "count \<Rightarrow> container \<Rightarrow> val result" where
  "evaluate (Count n) ctx = Inr (VInt n)"
| "evaluate (This path) ctx = resolve_this_path path ctx"

definition checked_count :: "count \<Rightarrow> container \<Rightarrow> val result" where
  "checked_count cnt ctx =
     bind (evaluate cnt ctx) (\<lambda>n.
       case num_of n of
         None \<Rightarrow> Inl TypeError
       | Some q \<Rightarrow> if 0 \<le> q then Inr n else Inl RangeError)"

definition range_count :: "val \<Rightarrow> nat result" where
  "range_count n = (case int_of n of None \<Rightarrow> Inl TypeError | Some k \<Rightarrow> Inr (nat k))"

fun py_len :: "val \<Rightarrow> nat result" where
  "py_len (VList xs) = Inr (length xs)"
| "py_len (VTuple xs) = Inr (length xs)"
| "py_len (VStr s) = Inr (length s)"
| "py_len (VBytes bs) = Inr (length bs)"
| "py_len (VDict d) = Inr (length d)"
| "py_len (VCont d) = Inr (length d)"
| "py_len _ = Inl TypeError"

subsection \<open>\<^verbatim>\<open>parse\<close>\<close>

text \<open>
  Parsing takes the codec, the context and the input, and returns the value and the input
  that is left.
  \<^item> A \<^verbatim>\<open>Struct\<close> opens a context of its own and parses its subconstructs in order; each
    value is stored under its name in the result and in the context, where the later
    subconstructs find it. (construct keeps entries of its own in every context and in the
    result, all under names that begin with an underscore: \<^verbatim>\<open>_\<close>, \<^verbatim>\<open>_params\<close>, \<^verbatim>\<open>_root\<close>,
    \<^verbatim>\<open>_parsing\<close>, \<^verbatim>\<open>_building\<close>, \<^verbatim>\<open>_sizing\<close>, \<^verbatim>\<open>_subcons\<close>, \<^verbatim>\<open>_io\<close>, \<^verbatim>\<open>_index\<close>. They are left
    out: context and result are the same list here.)
  \<^item> An \<^verbatim>\<open>Array\<close> parses \<open>count\<close> elements.
  \<^item> A \<^verbatim>\<open>GreedyRange\<close> parses elements until one fails, and goes back to where that one
    started. An element that is parsed without reading a byte would be parsed for ever.
  \<^item> An adapter parses with its subconstruct and decodes.
\<close>

function (sequential)
  parse :: "codec \<Rightarrow> container \<Rightarrow> byte list \<Rightarrow> (val \<times> byte list) result" and
  parse_subcons :: "(string \<times> codec) list \<Rightarrow> container \<Rightarrow> byte list \<Rightarrow> (val \<times> byte list) result" and
  parse_items :: "nat \<Rightarrow> codec \<Rightarrow> container \<Rightarrow> byte list \<Rightarrow> (val list \<times> byte list) result" and
  parse_greedy :: "codec \<Rightarrow> container \<Rightarrow> byte list \<Rightarrow> (val list \<times> byte list) result"
where
  "parse (Struct subcons) ctx bs = parse_subcons subcons [] bs"
| "parse (Array cnt subcon) ctx bs =
     bind (checked_count cnt ctx) (\<lambda>n.
     bind (range_count n) (\<lambda>k.
     bind (parse_items k subcon ctx bs) (\<lambda>(obj, rest). Inr (VList obj, rest))))"
| "parse (GreedyRange subcon) ctx bs =
     bind (parse_greedy subcon ctx bs) (\<lambda>(obj, rest). Inr (VList obj, rest))"
| "parse (BoolBit f) ctx bs =
     bind (field_parse f bs) (\<lambda>(obj, rest).
     bind (BoolBitAdapter_decode 0 obj) (\<lambda>v. Inr (v, rest)))"
| "parse (Bytes sz) ctx bs = Bytes_parse sz bs"
| "parse (PaddedString len encoding) ctx bs = PaddedString_parse len encoding bs"
| "parse (BitField size_bytes size_bits bit_flags) ctx bs =
     bitfield_parse size_bytes size_bits bit_flags bs"
| "parse (Field f) ctx bs = field_parse f bs"
| "parse (Scale f scale) ctx bs =
     bind (field_parse f bs) (\<lambda>(obj, rest).
     bind (ScaleAdapter_decode scale obj) (\<lambda>v. Inr (v, rest)))"
| "parse_subcons [] obj bs = Inr (VCont obj, bs)"
| "parse_subcons ((name, sc) # subcons) obj bs =
     bind (parse sc obj bs) (\<lambda>(subobj, rest).
       parse_subcons subcons (AList.update name subobj obj) rest)"
| "parse_items 0 subcon ctx bs = Inr ([], bs)"
| "parse_items (Suc k) subcon ctx bs =
     bind (parse subcon ctx bs) (\<lambda>(e, rest).
     bind (parse_items k subcon ctx rest) (\<lambda>(obj, rest'). Inr (e # obj, rest')))"
| "parse_greedy subcon ctx bs =
     (case parse subcon ctx bs of
        Inr (e, rest) \<Rightarrow>
          if length rest < length bs
          then bind (parse_greedy subcon ctx rest) (\<lambda>(obj, rest'). Inr (e # obj, rest'))
          else Inl Diverges
      | Inl Diverges \<Rightarrow> Inl Diverges
      | Inl (OutsideModel m) \<Rightarrow> Inl (OutsideModel m)
      | Inl e \<Rightarrow> Inr ([], bs))"
  by pat_completeness auto
termination
  by (relation "inv_image (less_than <*lex*> less_than)
        (\<lambda>x. case x of
           Inl (Inl (c, ctx, bs)) \<Rightarrow> (size c, 0)
         | Inl (Inr (subcons, obj, bs)) \<Rightarrow> (size_list (size_prod (\<lambda>x. 0) size) subcons, 0)
         | Inr (Inl (k, c, ctx, bs)) \<Rightarrow> (size c, Suc k)
         | Inr (Inr (c, ctx, bs)) \<Rightarrow> (size c, Suc (length bs)))") auto

subsection \<open>\<^verbatim>\<open>build\<close>\<close>

text \<open>
  A subconstruct that can be built from nothing (\<^verbatim>\<open>flagbuildnone\<close>) may be missing from the
  object of its \<^verbatim>\<open>Struct\<close>: it is then built from \<^verbatim>\<open>None\<close>. Of the codecs here these are the
  structs of such subconstructs, the empty one first, and the arrays of them.
\<close>

fun flagbuildnone :: "codec \<Rightarrow> bool" where
  "flagbuildnone (Struct subcons) = list_all (\<lambda>p. flagbuildnone (snd p)) subcons"
| "flagbuildnone (Array cnt subcon) = flagbuildnone subcon"
| "flagbuildnone (GreedyRange subcon) = flagbuildnone subcon"
| "flagbuildnone _ = False"

text \<open>
  \<^verbatim>\<open>context.update(obj)\<close>: the entries of a mapping are stored one by one. An empty sequence
  changes nothing; one with elements would be taken as a sequence of pairs.
\<close>

fun container_update :: "container \<Rightarrow> val \<Rightarrow> container result" where
  "container_update ctx (VDict d) = Inr (foldl (\<lambda>c p. AList.update (fst p) (snd p) c) ctx d)"
| "container_update ctx (VCont d) = Inr (foldl (\<lambda>c p. AList.update (fst p) (snd p) c) ctx d)"
| "container_update ctx (VList xs) =
     (if xs = [] then Inr ctx else Inl (OutsideModel ''update from a sequence''))"
| "container_update ctx (VTuple xs) =
     (if xs = [] then Inr ctx else Inl (OutsideModel ''update from a sequence''))"
| "container_update ctx (VStr s) =
     (if s = [] then Inr ctx else Inl (OutsideModel ''update from a sequence''))"
| "container_update ctx (VBytes bs) =
     (if bs = [] then Inr ctx else Inl (OutsideModel ''update from a sequence''))"
| "container_update ctx _ = Inl TypeError"

text \<open>
  Building takes the codec, the context and the object, and returns what construct calls
  \<^verbatim>\<open>buildret\<close> and the bytes written.
  \<^item> A \<^verbatim>\<open>Struct\<close> opens a context that holds all entries of the object; before a
    subconstruct is built its entry is stored again, after it the value that building
    returned. The struct returns the context.
  \<^item> An \<^verbatim>\<open>Array\<close> checks that the object has \<open>count\<close> elements and builds them; a
    \<^verbatim>\<open>GreedyRange\<close> builds all elements.
  \<^item> An adapter encodes, builds the result with its subconstruct, and returns the object.
\<close>

function (sequential)
  build :: "codec \<Rightarrow> container \<Rightarrow> val \<Rightarrow> (val \<times> byte list) result" and
  build_subcons :: "(string \<times> codec) list \<Rightarrow> container \<Rightarrow> val \<Rightarrow> (val \<times> byte list) result" and
  build_items :: "codec \<Rightarrow> container \<Rightarrow> val list \<Rightarrow> (val list \<times> byte list) result"
where
  "build (Struct subcons) ctx obj =
     bind (container_update [] (if obj = VNone then VCont [] else obj)) (\<lambda>context.
       build_subcons subcons context (if obj = VNone then VCont [] else obj))"
| "build (Array cnt subcon) ctx obj =
     bind (checked_count cnt ctx) (\<lambda>n.
     bind (py_len obj) (\<lambda>l.
       if num_of n \<noteq> Some (of_nat l) then Inl RangeError
       else bind (iterate obj) (\<lambda>items.
            bind (build_items subcon ctx items) (\<lambda>(retlist, out). Inr (VList retlist, out)))))"
| "build (GreedyRange subcon) ctx obj =
     bind (iterate obj) (\<lambda>items.
     bind (build_items subcon ctx items) (\<lambda>(retlist, out). Inr (VList retlist, out)))"
| "build (BoolBit f) ctx obj =
     bind (field_build f (BoolBitAdapter_encode 0 obj)) (\<lambda>out. Inr (obj, out))"
| "build (Bytes sz) ctx obj = Bytes_build sz obj"
| "build (PaddedString len encoding) ctx obj = PaddedString_build len encoding obj"
| "build (BitField size_bytes size_bits bit_flags) ctx obj =
     bind (bitfield_build size_bytes size_bits bit_flags obj) (\<lambda>out. Inr (obj, out))"
| "build (Field f) ctx obj = bind (field_build f obj) (\<lambda>out. Inr (obj, out))"
| "build (Scale f scale) ctx obj =
     bind (ScaleAdapter_encode scale obj) (\<lambda>raw.
     bind (field_build f raw) (\<lambda>out. Inr (obj, out)))"
| "build_subcons [] context obj = Inr (VCont context, [])"
| "build_subcons ((name, sc) # subcons) context obj =
     bind (if flagbuildnone sc then dict_get obj name VNone else getitem obj name) (\<lambda>subobj.
     bind (build sc (AList.update name subobj context) subobj) (\<lambda>(buildret, out).
     bind (build_subcons subcons
             (AList.update name buildret (AList.update name subobj context)) obj) (\<lambda>(ret, out').
     Inr (ret, out @ out'))))"
| "build_items subcon ctx [] = Inr ([], [])"
| "build_items subcon ctx (e # es) =
     bind (build subcon ctx e) (\<lambda>(buildret, out).
     bind (build_items subcon ctx es) (\<lambda>(retlist, out'). Inr (buildret # retlist, out @ out')))"
  by pat_completeness auto
termination
  by (relation "inv_image (less_than <*lex*> less_than)
        (\<lambda>x. case x of
           Inl (c, ctx, obj) \<Rightarrow> (size c, 0)
         | Inr (Inl (subcons, context, obj)) \<Rightarrow> (size_list (size_prod (\<lambda>x. 0) size) subcons, 0)
         | Inr (Inr (c, ctx, items)) \<Rightarrow> (size c, Suc (length items)))") auto

declare parse.simps [simp del] parse_subcons.simps [simp del] parse_greedy.simps [simp del]
declare build.simps [simp del] build_subcons.simps [simp del]

section \<open>The value normalizer\<close>






section \<open>Schemas of the scenarios\<close>

definition flag :: "string \<Rightarrow> int \<Rightarrow> val" where
  "flag name b = VDict [(''name'', VStr name), (''bit'', VInt b)]"

definition bitfield_schema :: "int \<Rightarrow> val list \<Rightarrow> val" where
  "bitfield_schema size_bits flags =
     VDict [(''type'', VStr ''bitfield''), (''size'', VInt size_bits), (''flags'', VList flags)]"

definition abc_flags :: "val list" where
  "abc_flags = [flag ''a'' 0, flag ''b'' 1, flag ''c'' 3]"

definition foo_schema :: val where
  "foo_schema = VDict [(''name'', VStr ''bad''), (''structure'', VDict [(''type'', VStr ''foo'')])]"

definition byte_schema :: val where
  "byte_schema = VDict [(''name'', VStr ''good''), (''structure'', VDict [(''type'', VStr ''uint8'')])]"






section \<open>Notions of the specification\<close>

text \<open>
  A flag is omitted by \<open>obj\<close> when its name, a string, is not in \<open>obj\<close>: the test
  \<^verbatim>\<open>if name not in obj: continue\<close> of \<^verbatim>\<open>_encode\<close>.
\<close>

definition omitted :: "val \<Rightarrow> val \<Rightarrow> bool" where
  "omitted obj f =
     (case getitem f ''name'' of
        Inr (VStr name) \<Rightarrow> contains obj name = Inr False
      | _ \<Rightarrow> False)"


text \<open>
  A rational is representable when it is a binary64 float: rounding leaves it as it is.
  \<open>truncated_toward_zero q n\<close> says in the words of the specification what \<^verbatim>\<open>int\<close> does to a
  float: \<open>n\<close> is the integer next to \<open>q\<close> on the side of zero.
\<close>

definition representable :: "rat \<Rightarrow> bool" where
  "representable q = (binary64 q = Some q)"

definition truncated_toward_zero :: "rat \<Rightarrow> int \<Rightarrow> bool" where
  "truncated_toward_zero q n =
     (\<bar>of_int n\<bar> \<le> \<bar>q\<bar> \<and> \<bar>q\<bar> < \<bar>of_int n\<bar> + 1 \<and> 0 \<le> of_int n * q)"








text \<open>The type names that \<^verbatim>\<open>build_struct_from_schema\<close> has a branch for.\<close>

definition known_types :: "string list" where
  "known_types =
     [''struct'', ''array'', ''char'', ''bytes'', ''string'', ''bitfield''] @ map fst TYPE_MAPPING"



section \<open>Properties\<close>

subsection \<open>The \<^verbatim>\<open>char\<close> codec\<close>

lemma to_bytes_big_1: "to_bytes_big (Suc 0) n = [word_of_int n]"
  by (simp add: to_bytes_big_def)

lemma bit0_uint: "(uint (b::byte) AND 1 \<noteq> 0) = bit b 0"
  by (simp add: and_one_eq bit_0 mod_2_eq_odd) (transfer, simp)

lemma char_parse_Cons: "char_parse (b # bs) = Inr (VBool (bit b 0), bs)"
  by (simp add: char_parse_def Byte_parse_def stream_read_def bind_def from_bytes_big_def
      BoolBitAdapter_decode_def bit0_uint)

lemma word_and_1: "(if bit (b::byte) 0 then 1 else 0) = b AND 1"
  by (simp add: and_one_eq bit_0 mod_2_eq_odd)

lemma char_build_bool: "char_build (VBool x) = Inr [if x then 1 else 0]"
  by (simp add: char_build_def BoolBitAdapter_encode_def Byte_build_def to_bytes_big_1)

lemma char_roundtrip: "bind (char_parse (b # bs)) (\<lambda>(v, rest). char_build v) = Inr [b AND 1]"
  by (simp add: char_parse_Cons char_build_bool word_and_1)

lemma and_1_neq: "(b::byte) AND 254 \<noteq> 0 \<Longrightarrow> b AND 1 \<noteq> b"
proof
  assume a: "b AND 254 \<noteq> 0" and e: "b AND 1 = b"
  have "b AND 254 = (b AND 1) AND 254" using e by simp
  also have "\<dots> = b AND (1 AND 254)" by (simp add: and.assoc)
  also have "\<dots> = 0" by simp
  finally show False using a by simp
qed

lemma bit0_odd: "bit (b::byte) 0 = odd (uint b)"
  by (simp add: bit_0, transfer, simp)

text \<open>
  Claim C10. The \<^verbatim>\<open>char\<close> codec reads one byte \<open>b\<close> and returns whether bit 0 of \<open>b\<close> is set,
  that is, whether \<open>b\<close> is odd; it builds \<^verbatim>\<open>True\<close> as the byte 1 and \<^verbatim>\<open>False\<close> as the byte 0.
  So parsing and building again gives \<open>b AND 1\<close>, and a byte with any of the bits 1 to 7 set
  does not come back.
\<close>

theorem char_codec_keeps_bit_0:
  fixes b :: byte
  shows "char_parse (b # bs) = Inr (VBool (bit b 0), bs)
       \<and> bit b 0 = odd (uint b)
       \<and> char_build (VBool True) = Inr [1] \<and> char_build (VBool False) = Inr [0]
       \<and> bind (char_parse (b # bs)) (\<lambda>(v, rest). char_build v) = Inr [b AND 1]
       \<and> (b AND 254 \<noteq> 0 \<longrightarrow> bind (char_parse (b # bs)) (\<lambda>(v, rest). char_build v) \<noteq> Inr [b])"
  using and_1_neq [of b]
  by (simp add: char_parse_Cons char_build_bool word_and_1 flip: bit0_odd)

theorem char_codec_keeps_bit_0_witness:
  "(2 :: byte) AND 254 \<noteq> 0
   \<and> char_parse [2] = Inr (VBool False, [])
   \<and> bind (char_parse [2]) (\<lambda>(v, rest). char_build v) = Inr [0]
   \<and> bind (char_parse [2]) (\<lambda>(v, rest). char_build v) \<noteq> Inr [2]"
  using char_codec_keeps_bit_0 [of 2 "[]"] by simp


subsection \<open>Bitfields\<close>

text \<open>
  Claim C3, as the code has it. The schema of the scenario, a bitfield of 8 bits with \<open>a\<close> at
  bit 0, \<open>b\<close> at bit 1 and \<open>c\<close> at bit 3, compiles, and the byte 11 decodes to \<open>a\<close> true,
  \<open>b\<close> the integer 1 and \<open>c\<close> the integer 1: \<open>b\<close> runs from bit 1 to the start of \<open>c\<close>, so its
  width is 2 and it is an integer.
\<close>

theorem abc_bitfield_decodes_11:
  "build_struct_from_schema (bitfield_schema 8 abc_flags) = Inr (BitField (VInt 1) (VInt 8) abc_flags)
   \<and> bitfield_parse (VInt 1) (VInt 8) abc_flags [11]
       = Inr (VDict [(''a'', VBool True), (''b'', VInt 1), (''c'', VInt 1)], [])"
  by code_simp

text \<open>
  Claim C3, as it is stated, fails: the decoded value is not the mapping with \<open>b\<close> the boolean
  true.
\<close>

theorem abc_bitfield_b_is_not_a_boolean:
  "bitfield_parse (VInt 1) (VInt 8) abc_flags [11]
     \<noteq> Inr (VDict [(''a'', VBool True), (''b'', VBool True), (''c'', VInt 1)], [])"
  by code_simp

lemma mask16: "0 \<le> x \<Longrightarrow> x < 65536 \<Longrightarrow> (x::int) AND 65535 = x"
proof -
  assume "0 \<le> x" "x < 65536"
  then have "take_bit 16 x = x" by (simp add: take_bit_int_eq_self)
  then show ?thesis by (simp add: take_bit_eq_mask mask_eq_exp_minus_1)
qed

lemma uint_byte_bound: "uint (b::byte) < 256" "0 \<le> uint b"
  using uint_bounded [of b] by simp_all

text \<open>
  Claim C2 at two bytes. A bitfield of 16 bits with the one flag \<open>a\<close> at bit 0 compiles to a
  \<^verbatim>\<open>BytesInteger\<close> of 2 bytes; parsing reads the first byte as the high one, so \<open>a\<close> is
  \<open>256 * b0 + b1\<close>, where the little-endian value of the two bytes is \<open>b0 + 256 * b1\<close>. The
  bytes 01 00 give 256, not 1.
\<close>

theorem bitfield_16_most_significant_byte_first:
  "build_struct_from_schema (bitfield_schema 16 [flag ''a'' 0])
     = Inr (BitField (VInt 2) (VInt 16) [flag ''a'' 0])
   \<and> bitfield_parse (VInt 2) (VInt 16) [flag ''a'' 0] [b0, b1]
       = Inr (VDict [(''a'', VInt (256 * uint b0 + uint b1))], [])
   \<and> from_bytes_little [b0, b1] = uint b0 + 256 * uint b1
   \<and> bitfield_parse (VInt 2) (VInt 16) [flag ''a'' 0] [1, 0] = Inr (VDict [(''a'', VInt 256)], [])
   \<and> from_bytes_little [1, 0] = 1"
proof -
  have c: "build_struct_from_schema (bitfield_schema 16 [flag ''a'' 0])
     = Inr (BitField (VInt 2) (VInt 16) [flag ''a'' 0])"
    by code_simp
  have m: "(256 * uint b0 + uint b1) AND 65535 = 256 * uint b0 + uint b1" for b0 b1 :: byte
    using uint_byte_bound [of b0] uint_byte_bound [of b1] by (intro mask16) auto
  have p: "bitfield_parse (VInt 2) (VInt 16) [flag ''a'' 0] [b0, b1]
       = Inr (VDict [(''a'', VInt (256 * uint b0 + uint b1))], [])" for b0 b1
    using m [of b0 b1]
    by (simp add: flag_def bitfield_parse_def BytesInteger_parse_def BytesInteger_length_def
        py_le_zero_def stream_read_def from_bytes_big_def BitFieldAdapter_decode_def
        enumerate_flags_def decode_flag_def lookup_def py_sub_def py_eq_int_def py_rshift_def
        py_lshift_def py_and_def)
  show ?thesis using p [of 1 0] by (simp add: c p from_bytes_little_def)
qed

lemma encode_flags_omitted:
  "omitted obj f \<Longrightarrow> encode_flags obj ((f, e) # fs) value = encode_flags obj fs value"
  by (auto simp: omitted_def split: sum.splits val.splits)

lemma encode_flags_filter:
  "encode_flags obj fs value = encode_flags obj (filter (\<lambda>(f, e). \<not> omitted obj f) fs) value"
proof (induction fs arbitrary: "value")
  case Nil
  show ?case by simp
next
  case (Cons p fs)
  obtain f e where p: "p = (f, e)" by (cases p)
  show ?case
  proof (cases "omitted obj f")
    case True
    then show ?thesis using Cons.IH [of "value"]
      by (simp add: p encode_flags_omitted del: encode_flags.simps)
  next
    case False
    have ih: "encode_flags obj fs = encode_flags obj (filter (\<lambda>(f, e). \<not> omitted obj f) fs)"
      by (rule ext) (rule Cons.IH)
    have "encode_flags obj ((f, e) # fs) value
        = encode_flags obj ((f, e) # filter (\<lambda>(f, e). \<not> omitted obj f) fs) value"
      by (simp add: ih cong: if_cong)
    then show ?thesis using False by (simp add: p)
  qed
qed

text \<open>
  Claim C4, amended. Whatever the bitfield and the object, encoding is the loop over the
  flags that the object does not omit: an omitted flag raises nothing and sets no bit. An
  object that omits every flag encodes to 0.
\<close>

theorem bitfield_encode_skips_omitted_flags:
  "BitFieldAdapter_encode size_bits bit_flags obj
     = bind (encode_flags obj
               (filter (\<lambda>(f, e). \<not> omitted obj f) (enumerate_flags size_bits bit_flags)) 0)
            (\<lambda>value. Inr (VInt value))
   \<and> ((\<forall>f \<in> set bit_flags. omitted obj f) \<longrightarrow>
        BitFieldAdapter_encode size_bits bit_flags obj = Inr (VInt 0))"
proof -
  have 1: "BitFieldAdapter_encode size_bits bit_flags obj
     = bind (encode_flags obj
               (filter (\<lambda>(f, e). \<not> omitted obj f) (enumerate_flags size_bits bit_flags)) 0)
            (\<lambda>value. Inr (VInt value))"
    unfolding BitFieldAdapter_encode_def by (subst encode_flags_filter) (rule refl)
  have "filter (\<lambda>(f, e). \<not> omitted obj f) (enumerate_flags size_bits bit_flags) = []"
    if "\<forall>f \<in> set bit_flags. omitted obj f"
    using that by (auto simp: filter_empty_conv enumerate_flags_def dest: set_zip_leftD)
  then show ?thesis using 1 by simp
qed

theorem bitfield_encode_skips_omitted_flags_witness:
  "list_all (omitted (VDict [])) abc_flags
   \<and> BitFieldAdapter_encode (VInt 8) abc_flags (VDict []) = Inr (VInt 0)
   \<and> omitted (VDict [(''a'', VBool True), (''c'', VInt 2)]) (flag ''b'' 1)
   \<and> BitFieldAdapter_encode (VInt 8) abc_flags (VDict [(''a'', VBool True), (''c'', VInt 2)])
       = Inr (VInt 17)"
  using bitfield_encode_skips_omitted_flags [of "VInt 8" abc_flags "VDict []"]
    bitfield_encode_skips_omitted_flags [of "VInt 8" abc_flags "VDict [(''a'', VBool True), (''c'', VInt 2)]"]
  by (simp add: abc_flags_def flag_def omitted_def lookup_def enumerate_flags_def encode_flag_def
      py_sub_def py_eq_int_def py_lshift_def py_and_def py_or_def)

text \<open>
  Claim C4, as it is stated, fails: the mapping that has \<open>a\<close> and omits \<open>b\<close> and \<open>c\<close> is built,
  to the byte 1.
\<close>

theorem bitfield_encode_without_b_and_c_succeeds:
  "bitfield_build (VInt 1) (VInt 8) abc_flags (VDict [(''a'', VBool True)]) = Inr [1]"
  by code_simp

subsection \<open>Compile errors\<close>

lemma bytes_size_not_positive:
  assumes "map_of d ''type'' = Some (VStr ''bytes'')"
    and "map_of d ''size'' = None \<or> (\<exists>n. map_of d ''size'' = Some (VInt n) \<and> n \<le> 0)"
  shows "build_struct_from_schema (VDict d)
           = Inl (ValueError (''Bytes must have a positive 'size'' @ [CHR 0x27]) None)"
  using assms by (auto simp: build_struct_from_schema.simps py_le_zero_def)

text \<open>
  Claim C7 at the lengths 0 and -4. A \<^verbatim>\<open>string\<close> node is only checked for having a length:
  both compile. A \<^verbatim>\<open>bytes\<close> node with size 0, or with no size, is the compile error the
  claim asks for.
\<close>

theorem string_length_zero_compiles:
  "build_struct_from_schema (VDict [(''type'', VStr ''string''), (''length'', VInt 0)])
     = Inr (PaddedString (VInt 0) ''ascii'')
   \<and> build_struct_from_schema (VDict [(''type'', VStr ''string''), (''length'', VInt (- 4))])
     = Inr (PaddedString (VInt (- 4)) ''ascii'')
   \<and> build_struct_from_schema (VDict [(''type'', VStr ''bytes''), (''size'', VInt 0)])
     = Inl (ValueError (''Bytes must have a positive 'size'' @ [CHR 0x27]) None)
   \<and> build_struct_from_schema (VDict [(''type'', VStr ''bytes'')])
     = Inl (ValueError (''Bytes must have a positive 'size'' @ [CHR 0x27]) None)"
  by (simp add: build_struct_from_schema.simps py_le_zero_def make_PaddedString_def
      encodingunit_def possiblestringencodings_def lower_char_def)

lemma unknown_type_lookup: "t \<notin> set known_types \<Longrightarrow> map_of TYPE_MAPPING t = None"
  by (simp add: known_types_def map_of_eq_None_iff)

lemma build_unknown_type:
  assumes "map_of d ''type'' = Some (VStr t)" and "t \<notin> set known_types"
  shows "build_struct_from_schema (VDict d) = Inl (unknown_type (VStr t))"
proof -
  have "t \<noteq> ''struct''" "t \<noteq> ''array''" "t \<noteq> ''char''" "t \<noteq> ''bytes''" "t \<noteq> ''string''"
    "t \<noteq> ''bitfield''"
    using assms(2) by (auto simp: known_types_def)
  then show ?thesis
    using assms(1) unknown_type_lookup [OF assms(2)]
    by (simp add: build_struct_from_schema.simps)
qed

lemma load_loop_append:
  "load_loop (pre @ post) parsers = bind (load_loop pre parsers) (load_loop post)"
  by (induction pre arbitrary: parsers) (auto split: sum.splits error.splits)

lemma load_loop_failed:
  "SchemaParser file = Inl e \<Longrightarrow> (\<And>m. e \<noteq> OutsideModel m) \<Longrightarrow>
   load_loop (file # files) parsers = load_loop files parsers"
  by (cases e) auto

lemma load_loop_all_ok:
  "mapM SchemaParser files = Inr ps \<Longrightarrow> load_loop files parsers = Inr (parsers @ ps)"
proof (induction files arbitrary: parsers ps)
  case Nil
  then show ?case by simp
next
  case (Cons f fs)
  then obtain p ps' where p: "SchemaParser f = Inr p" and ps': "mapM SchemaParser fs = Inr ps'"
    and ps: "ps = p # ps'"
    by (auto simp: bind_def split: sum.splits)
  show ?case using Cons.IH [OF ps', of "parsers @ [p]"] by (simp add: p ps)
qed

text \<open>
  Claim C8. A node whose type is a string that the compiler has no branch for fails to
  compile with the \<^verbatim>\<open>ValueError\<close> whose message ends in that string. In a directory, a schema
  file whose structure is such a node changes nothing for the others: the loader returns
  what it returns without that file, and when the other files all load, their parsers.
\<close>

theorem unknown_type_fails_one_schema_only:
  assumes "map_of d ''type'' = Some (VStr t)" and "t \<notin> set known_types"
  shows "build_struct_from_schema (VDict d) = Inl (unknown_type (VStr t))
    \<and> message (unknown_type (VStr t)) = Some (''Unknown type in schema: '' @ t)
    \<and> (\<forall>name js pre post. getitem js ''structure'' = Inr (VDict d) \<longrightarrow>
          load_parsers_from_schemas dir (Directory (pre @ (name, Inr js) # post))
            = load_parsers_from_schemas dir (Directory (pre @ post))
          \<and> (\<forall>ps. mapM SchemaParser (pre @ post) = Inr ps \<longrightarrow>
                load_parsers_from_schemas dir (Directory (pre @ (name, Inr js) # post)) = Inr ps))"
proof -
  have b: "build_struct_from_schema (VDict d) = Inl (unknown_type (VStr t))"
    using assms by (rule build_unknown_type)
  have l: "load_loop (pre @ (name, Inr js) # post) [] = load_loop (pre @ post) []"
    if "getitem js ''structure'' = Inr (VDict d)" for name js pre post
  proof -
    have "SchemaParser (name, Inr js) = Inl (unknown_type (VStr t))"
      using that b by (simp add: SchemaParser_def)
    then have "load_loop ((name, Inr js) # post) parsers = load_loop post parsers" for parsers
      by (rule load_loop_failed) (simp add: unknown_type_def)
    then show ?thesis by (simp add: load_loop_append cong: bind_cong)
  qed
  have "load_loop (pre @ post) [] = Inr ps" if "mapM SchemaParser (pre @ post) = Inr ps" for pre post ps
    using load_loop_all_ok [OF that, of "[]"] by simp
  then show ?thesis using b l by (simp add: unknown_type_def)
qed

theorem unknown_type_fails_one_schema_only_witness:
  "map_of [(''type'', VStr ''foo'')] ''type'' = Some (VStr ''foo'')
   \<and> ''foo'' \<notin> set known_types
   \<and> build_struct_from_schema (VDict [(''type'', VStr ''foo'')])
       = Inl (ValueError ''Unknown type in schema: '' (Some (VStr ''foo'')))
   \<and> message (unknown_type (VStr ''foo'')) = Some ''Unknown type in schema: foo''
   \<and> load_parsers_from_schemas ''schemas''
        (Directory [(''a.json'', Inr byte_schema), (''b.json'', Inr foo_schema), (''c.json'', Inr byte_schema)])
       = Inr [\<lparr>p_schema_file = ''a.json'', p_schema = byte_schema, p_struct = Field Int8ul\<rparr>,
              \<lparr>p_schema_file = ''c.json'', p_schema = byte_schema, p_struct = Field Int8ul\<rparr>]"
proof -
  have 1: "map_of [(''type'', VStr ''foo'')] ''type'' = Some (VStr ''foo'')" by simp
  have 2: "''foo'' \<notin> set known_types" by (simp add: known_types_def TYPE_MAPPING_def)
  have 3: "getitem foo_schema ''structure'' = Inr (VDict [(''type'', VStr ''foo'')])"
    by (simp add: foo_schema_def lookup_def)
  have 4: "mapM SchemaParser ([(''a.json'', Inr byte_schema)] @ [(''c.json'', Inr byte_schema)])
      = Inr [\<lparr>p_schema_file = ''a.json'', p_schema = byte_schema, p_struct = Field Int8ul\<rparr>,
              \<lparr>p_schema_file = ''c.json'', p_schema = byte_schema, p_struct = Field Int8ul\<rparr>]"
    by (simp add: SchemaParser_def byte_schema_def lookup_def build_struct_from_schema.simps
        TYPE_MAPPING_def)
  note t = unknown_type_fails_one_schema_only [OF 1 2, of "''schemas''"]
  from t 3 have "\<forall>ps. mapM SchemaParser ([(''a.json'', Inr byte_schema)] @ [(''c.json'', Inr byte_schema)]) = Inr ps
      \<longrightarrow> load_parsers_from_schemas ''schemas''
            (Directory ([(''a.json'', Inr byte_schema)] @ (''b.json'', Inr foo_schema) # [(''c.json'', Inr byte_schema)]))
          = Inr ps"
    by blast
  with 4 have 5: "load_parsers_from_schemas ''schemas''
            (Directory ([(''a.json'', Inr byte_schema)] @ (''b.json'', Inr foo_schema) # [(''c.json'', Inr byte_schema)]))
      = Inr [\<lparr>p_schema_file = ''a.json'', p_schema = byte_schema, p_struct = Field Int8ul\<rparr>,
              \<lparr>p_schema_file = ''c.json'', p_schema = byte_schema, p_struct = Field Int8ul\<rparr>]"
    by blast
  have 6: "build_struct_from_schema (VDict [(''type'', VStr ''foo'')])
       = Inl (ValueError ''Unknown type in schema: '' (Some (VStr ''foo'')))"
    using t by (simp add: unknown_type_def)
  have 7: "message (unknown_type (VStr ''foo'')) = Some ''Unknown type in schema: foo''"
    using t by simp
  show ?thesis using 1 2 5 6 7 by simp
qed

subsection \<open>The value normalizer\<close>



subsection \<open>Dynamic counts\<close>

lemma split_dot_not_Nil [simp]: "split_dot path \<noteq> []"
  by (induction path) (auto split: list.splits)










subsection \<open>The scale adapter\<close>

lemma trunc_toward_zero: "truncated_toward_zero q (trunc q)"
proof (cases "0 \<le> q")
  case True
  then have "0 \<le> \<lfloor>q\<rfloor>" by simp
  then have "\<bar>of_int \<lfloor>q\<rfloor> :: rat\<bar> = of_int \<lfloor>q\<rfloor>" by simp
  moreover have "of_int \<lfloor>q\<rfloor> \<le> q" "q < of_int \<lfloor>q\<rfloor> + 1" by linarith+
  ultimately show ?thesis using True
    by (simp add: truncated_toward_zero_def trunc_def)
next
  case False
  then have q: "q < 0" by simp
  then have c: "\<lceil>q\<rceil> \<le> 0" by simp
  then have a: "\<bar>of_int \<lceil>q\<rceil> :: rat\<bar> = - of_int \<lceil>q\<rceil>" by simp
  have "q \<le> of_int \<lceil>q\<rceil>" "of_int \<lceil>q\<rceil> < q + 1" by linarith+
  moreover have "0 \<le> (of_int \<lceil>q\<rceil> :: rat) * q"
    using c q by (simp add: mult_nonpos_nonpos)
  ultimately show ?thesis using False q a
    by (simp add: truncated_toward_zero_def trunc_def)
qed

lemma to_float_number:
  "num_of sv = Some s \<Longrightarrow> representable s \<Longrightarrow> to_float sv = Inr s"
  by (cases sv) (auto simp: to_float_def representable_def)

lemma decode_int_scale:
  "scale \<noteq> 0 \<Longrightarrow> ScaleAdapter_decode (VInt scale) (VInt raw)
     = (case binary64 (of_int raw / of_int scale) of
          None \<Rightarrow> Inl OverflowError
        | Some q \<Rightarrow> Inr (VFloat q))"
  by (simp add: ScaleAdapter_decode_def py_truediv_def)

lemma decode_exact:
  assumes "num_of sv = Some s" "s \<noteq> 0" "representable (of_int raw)" "representable s"
    "representable (of_int raw / s)"
  shows "ScaleAdapter_decode sv (VInt raw) = Inr (VFloat (of_int raw / s))"
proof (cases "int_of sv")
  case None
  then have "to_float sv = Inr s" using assms by (simp add: to_float_number)
  moreover have "to_float (VInt raw) = Inr (of_int raw)"
    using assms(3) by (simp add: to_float_number)
  ultimately show ?thesis using None assms
    by (simp add: ScaleAdapter_decode_def py_truediv_def representable_def)
next
  case (Some n)
  then have "s = of_int n" using assms(1) by (cases sv) auto
  then show ?thesis using Some assms
    by (simp add: ScaleAdapter_decode_def py_truediv_def representable_def)
qed

lemma encode_rounded:
  assumes "num_of sv = Some s" "representable s" "binary64 (x * s) = Some p"
  shows "ScaleAdapter_encode sv (VFloat x) = Inr (VInt (trunc p))"
proof -
  have "to_float sv = Inr s" using assms by (simp add: to_float_number)
  then have "float_op (*) (VFloat x) sv = Inr (VFloat p)"
    using assms(3) by (simp add: float_op_def to_float_def)
  then show ?thesis using assms(1)
    by (cases sv) (auto simp: ScaleAdapter_encode_def py_mul_def split: option.splits)
qed


lemma representable_100: "representable 100"
  unfolding representable_def by code_simp

lemma representable_250: "representable (of_int 250)"
  unfolding representable_def by code_simp

lemma representable_5_2: "representable (of_int 250 / 100)"
  unfolding representable_def by code_simp

lemma binary64_2_7: "binary64 (27 / 10) = Some (3039929748475085 / 1125899906842624)"
  by code_simp

lemma binary64_2_7_times_100: "binary64 (3039929748475085 / 1125899906842624 * 100) = Some 270"
  by code_simp

lemma representable_87_32: "binary64 (87 / 32) = Some (87 / 32)"
  by code_simp

lemma binary64_87_32_times_100: "binary64 (87 / 32 * 100) = Some (2175 / 8)"
  by code_simp

text \<open>
  Claim C5. For a scale that is a number other than zero (and a float itself):
  \<^item> decoding the raw integer with an integer scale returns the float nearest to their
    quotient, and returns the quotient itself whenever that is a float;
  \<^item> encoding a float returns the product with the scale, as a float, truncated toward zero.
  The codec of a scaled primitive parses the field and decodes, and encodes and builds the
  field. With the scale 100, decoding 250 gives 2.5; encoding 2.7 (the float nearest to
  27/10) gives 270; encoding 2.71875 gives 271, though 271.875 is nearer to 272.
\<close>

theorem scale_adapter_divides_and_truncates:
  "(num_of sv = Some s \<and> s \<noteq> 0 \<and> representable s \<longrightarrow>
      (\<forall>raw n. sv = VInt n \<longrightarrow>
         ScaleAdapter_decode sv (VInt raw)
           = (case binary64 (of_int raw / of_int n) of
                None \<Rightarrow> Inl OverflowError
              | Some q \<Rightarrow> Inr (VFloat q)))
      \<and> (\<forall>raw. representable (of_int raw) \<and> representable (of_int raw / s) \<longrightarrow>
         ScaleAdapter_decode sv (VInt raw) = Inr (VFloat (of_int raw / s)))
      \<and> (\<forall>x p. binary64 (x * s) = Some p \<longrightarrow>
         ScaleAdapter_encode sv (VFloat x) = Inr (VInt (trunc p))
         \<and> truncated_toward_zero p (trunc p)))
   \<and> parse (Scale f sv) ctx bs
       = bind (field_parse f bs) (\<lambda>(raw, rest).
         bind (ScaleAdapter_decode sv raw) (\<lambda>v. Inr (v, rest)))
   \<and> build (Scale f sv) ctx obj
       = bind (ScaleAdapter_encode sv obj) (\<lambda>raw.
         bind (field_build f raw) (\<lambda>out. Inr (obj, out)))
   \<and> ScaleAdapter_decode (VInt 100) (VInt 250) = Inr (VFloat (5 / 2))
   \<and> binary64 (27 / 10) = Some (3039929748475085 / 1125899906842624)
   \<and> ScaleAdapter_encode (VInt 100) (VFloat (3039929748475085 / 1125899906842624))
       = Inr (VInt 270)
   \<and> binary64 (87 / 32) = Some (87 / 32)
   \<and> ScaleAdapter_encode (VInt 100) (VFloat (87 / 32)) = Inr (VInt 271)
   \<and> \<bar>87 / 32 * 100 - 272\<bar> < \<bar>87 / 32 * 100 - (271 :: rat)\<bar>"
proof -
  have g: "num_of sv = Some s \<and> s \<noteq> 0 \<and> representable s \<longrightarrow>
      (\<forall>raw n. sv = VInt n \<longrightarrow>
         ScaleAdapter_decode sv (VInt raw)
           = (case binary64 (of_int raw / of_int n) of
                None \<Rightarrow> Inl OverflowError
              | Some q \<Rightarrow> Inr (VFloat q)))
      \<and> (\<forall>raw. representable (of_int raw) \<and> representable (of_int raw / s) \<longrightarrow>
         ScaleAdapter_decode sv (VInt raw) = Inr (VFloat (of_int raw / s)))
      \<and> (\<forall>x p. binary64 (x * s) = Some p \<longrightarrow>
         ScaleAdapter_encode sv (VFloat x) = Inr (VInt (trunc p))
         \<and> truncated_toward_zero p (trunc p))"
  proof (intro impI, elim conjE)
    assume a: "num_of sv = Some s" "s \<noteq> 0" "representable s"
    show "(\<forall>raw n. sv = VInt n \<longrightarrow>
         ScaleAdapter_decode sv (VInt raw)
           = (case binary64 (of_int raw / of_int n) of
                None \<Rightarrow> Inl OverflowError
              | Some q \<Rightarrow> Inr (VFloat q)))
      \<and> (\<forall>raw. representable (of_int raw) \<and> representable (of_int raw / s) \<longrightarrow>
         ScaleAdapter_decode sv (VInt raw) = Inr (VFloat (of_int raw / s)))
      \<and> (\<forall>x p. binary64 (x * s) = Some p \<longrightarrow>
         ScaleAdapter_encode sv (VFloat x) = Inr (VInt (trunc p))
         \<and> truncated_toward_zero p (trunc p))"
      using a decode_int_scale decode_exact [OF a(1,2) _ a(3)]
        encode_rounded [OF a(1,3)] trunc_toward_zero
      by auto
  qed
  have d: "ScaleAdapter_decode (VInt 100) (VInt 250) = Inr (VFloat (5 / 2))"
    using decode_exact [of "VInt 100" 100 250] representable_100 representable_250 representable_5_2
    by simp
  have e: "ScaleAdapter_encode (VInt 100) (VFloat (3039929748475085 / 1125899906842624))
       = Inr (VInt 270)"
    using encode_rounded [of "VInt 100" 100 "3039929748475085 / 1125899906842624" 270]
      representable_100 binary64_2_7_times_100
    by (simp add: trunc_def)
  have "trunc (2175 / 8) = 271" by (simp add: trunc_def floor_eq_iff)
  then have e2: "ScaleAdapter_encode (VInt 100) (VFloat (87 / 32)) = Inr (VInt 271)"
    using encode_rounded [of "VInt 100" 100 "87 / 32" "2175 / 8"]
      representable_100 binary64_87_32_times_100
    by simp
  have p: "parse (Scale f sv) ctx bs
       = bind (field_parse f bs) (\<lambda>(raw, rest).
         bind (ScaleAdapter_decode sv raw) (\<lambda>v. Inr (v, rest)))"
    by (simp add: parse.simps)
  have b: "build (Scale f sv) ctx obj
       = bind (ScaleAdapter_encode sv obj) (\<lambda>raw.
         bind (field_build f raw) (\<lambda>out. Inr (obj, out)))"
    by (simp add: build.simps)
  have r: "\<bar>87 / 32 * 100 - 272\<bar> < \<bar>87 / 32 * 100 - (271 :: rat)\<bar>" by simp
  from g p b d binary64_2_7 e representable_87_32 e2 r show ?thesis by blast
qed

theorem scale_adapter_divides_and_truncates_witness:
  "num_of (VInt 100) = Some 100 \<and> (100 :: rat) \<noteq> 0 \<and> representable 100
   \<and> representable (of_int 250) \<and> representable (of_int 250 / 100)
   \<and> ScaleAdapter_decode (VInt 100) (VInt 250) = Inr (VFloat (of_int 250 / 100))
   \<and> binary64 (3039929748475085 / 1125899906842624 * 100) = Some 270
   \<and> ScaleAdapter_encode (VInt 100) (VFloat (3039929748475085 / 1125899906842624))
       = Inr (VInt (trunc 270))
   \<and> truncated_toward_zero 270 (trunc 270)"
proof -
  note t = scale_adapter_divides_and_truncates [where sv = "VInt 100" and s = 100]
  have 1: "num_of (VInt 100) = Some 100 \<and> (100 :: rat) \<noteq> 0 \<and> representable 100"
    using representable_100 by simp
  with t have
    "ScaleAdapter_decode (VInt 100) (VInt 250) = Inr (VFloat (of_int 250 / 100))"
    using representable_250 representable_5_2 by blast
  moreover from t 1 have
    "ScaleAdapter_encode (VInt 100) (VFloat (3039929748475085 / 1125899906842624))
       = Inr (VInt (trunc 270)) \<and> truncated_toward_zero 270 (trunc 270)"
    using binary64_2_7_times_100 by blast
  ultimately show ?thesis
    using 1 representable_250 representable_5_2 binary64_2_7_times_100 by simp
qed

subsection \<open>Round trip\<close>



lemma from_bytes_little_Nil [simp]: "from_bytes_little [] = 0"
  by (simp add: from_bytes_little_def)


























lemma py_ops_VInt [simp]:
  "py_sub (VInt m) (VInt n) = Inr (VInt (m - n))"
  "py_and (VInt m) (VInt n) = Inr (VInt (m AND n))"
  "py_or (VInt m) (VInt n) = Inr (VInt (m OR n))"
  by (simp_all add: py_sub_def py_and_def py_or_def)














text \<open>
  Structs. \<^verbatim>\<open>Struct._build\<close> starts from a context that holds the whole object, where
  \<^verbatim>\<open>Struct._parse\<close> had the fields read so far: a count that was found then is found again,
  with the same value.
\<close>

lemma update_absent: "k \<notin> fst ` set al \<Longrightarrow> AList.update k v al = al @ [(k, v)]"
  by (induction al) auto


lemma foldl_update_distinct:
  "distinct (map fst (acc @ d)) \<Longrightarrow>
   foldl (\<lambda>c p. AList.update (fst p) (snd p) c) acc d = acc @ d"
proof (induction d arbitrary: acc)
  case Nil
  show ?case by simp
next
  case (Cons p d)
  have "fst p \<notin> fst ` set acc" using Cons.prems by auto
  then have "AList.update (fst p) (snd p) acc = acc @ [p]" by (simp add: update_absent)
  moreover have "distinct (map fst ((acc @ [p]) @ d))" using Cons.prems by simp
  ultimately show ?case using Cons.IH [of "acc @ [p]"] by simp
qed

lemma container_update_own:
  "distinct (map fst obj) \<Longrightarrow> container_update [] (VCont obj) = Inr obj"
  using foldl_update_distinct [of "[]" obj] by simp

















end
